theory Spec2Isabelle
  imports Main "HOL-Library.Word" "HOL-Library.Monad_Syntax" "HOL-Library.Code_Target_Numeral"
begin

unbundle bit_operations_syntax

section \<open>Machine types and byte encodings\<close>

text \<open>
  The agent of winpty (\<^verbatim>\<open>src/agent/Agent.cc\<close>) is embedded with explicit state passing.
  Bytes are \<open>8 word\<close>, wide characters (\<^verbatim>\<open>wchar_t\<close> on Windows) are \<open>16 word\<close>, sizes
  (\<^verbatim>\<open>size_t\<close>, and the \<^verbatim>\<open>uint64_t\<close> packet size, which is only compared) are \<open>nat\<close>.
  A failed \<^verbatim>\<open>ASSERT\<close> aborts the process: it is the value \<open>Fatal msg s\<close>, with the text of
  the failed condition and the state of the agent at the abort. \<^verbatim>\<open>trace\<close> writes to the
  debugging client only and is left out.
\<close>

type_synonym byte = "8 word"
type_synonym wchar = "16 word"
type_synonym wstring = "wchar list"
type_synonym HANDLE = int

text \<open>A wide string literal \<^verbatim>\<open>L"..."\<close>.\<close>

definition wide :: "string \<Rightarrow> wstring" where
  "wide s = map (\<lambda>c. of_nat (of_char c)) s"

text \<open>Little-endian raw values, as \<^verbatim>\<open>putRawValue\<close> and \<^verbatim>\<open>getRawValue\<close> copy them on x86.\<close>

fun le_bytes :: "nat \<Rightarrow> nat \<Rightarrow> byte list" where
  "le_bytes 0 v = []"
| "le_bytes (Suc n) v = of_nat (v mod 256) # le_bytes n (v div 256)"

fun le_value :: "byte list \<Rightarrow> nat" where
  "le_value [] = 0"
| "le_value (b # bs) = unat b + 256 * le_value bs"

fun wchars_of_bytes :: "byte list \<Rightarrow> wstring" where
  "wchars_of_bytes (lo # hi # bs) = of_nat (unat lo + 256 * unat hi) # wchars_of_bytes bs"
| "wchars_of_bytes bs = []"

definition bytes_of_wchars :: "wstring \<Rightarrow> byte list" where
  "bytes_of_wchars s = concat (map (\<lambda>c. le_bytes 2 (unat c)) s)"

text \<open>
  What ends a handler early: a failed assertion, or the \<^verbatim>\<open>ReadBuffer::DecodeError\<close>
  exception, which \<^verbatim>\<open>pollControlPipe\<close> catches and turns into a failed assertion.
  Both carry the state at that moment.
\<close>

datatype 's stop = Fatal string 's | DecodeError 's

section \<open>NamedPipe\<close>

text \<open>
  Modelled from the spec: \<^verbatim>\<open>NamedPipe.h\<close> and \<^verbatim>\<open>NamedPipe.cc\<close> are not among the sources.
  A pipe endpoint is connecting, open or closed, has a name, the bytes received and not yet
  read (\<open>m_inQueue\<close>), the bytes written and not yet sent (\<open>m_outQueue\<close>) and the capacity of
  its receive buffer. \<open>peek\<close> copies without consuming, \<open>read\<close> consumes what it copies,
  \<open>write_pipe\<close> (the method \<^verbatim>\<open>write\<close>) queues bytes for sending.
\<close>

record NamedPipe =
  m_name :: wstring
  m_connecting :: bool
  m_closed :: bool
  m_inQueue :: "byte list"
  m_outQueue :: "byte list"
  m_readBufferSize :: nat

definition isClosed :: "NamedPipe \<Rightarrow> bool" where
  "isClosed p = m_closed p"

definition isConnecting :: "NamedPipe \<Rightarrow> bool" where
  "isConnecting p = m_connecting p"

definition name :: "NamedPipe \<Rightarrow> wstring" where
  "name p = m_name p"

definition bytesAvailable :: "NamedPipe \<Rightarrow> nat" where
  "bytesAvailable p = length (m_inQueue p)"

definition bytesToSend :: "NamedPipe \<Rightarrow> nat" where
  "bytesToSend p = length (m_outQueue p)"

definition readBufferSize :: "NamedPipe \<Rightarrow> nat" where
  "readBufferSize p = m_readBufferSize p"

definition setReadBufferSize :: "nat \<Rightarrow> NamedPipe \<Rightarrow> NamedPipe" where
  "setReadBufferSize n p = p\<lparr>m_readBufferSize := n\<rparr>"

definition peek :: "nat \<Rightarrow> NamedPipe \<Rightarrow> byte list" where
  "peek n p = take n (m_inQueue p)"

definition read :: "nat \<Rightarrow> NamedPipe \<Rightarrow> byte list \<times> NamedPipe" where
  "read n p = (peek n p, p\<lparr>m_inQueue := drop n (m_inQueue p)\<rparr>)"

definition write_pipe :: "byte list \<Rightarrow> NamedPipe \<Rightarrow> NamedPipe" where
  "write_pipe bs p = p\<lparr>m_outQueue := m_outQueue p @ bs\<rparr>"

text \<open>\<^verbatim>\<open>write(const char *text)\<close>: a C string, so the bytes up to the first NUL.\<close>

definition write_cstr :: "byte list \<Rightarrow> NamedPipe \<Rightarrow> NamedPipe" where
  "write_cstr text p = write_pipe (takeWhile (\<lambda>b. b \<noteq> 0) text) p"

definition closePipe :: "NamedPipe \<Rightarrow> NamedPipe" where
  "closePipe p = p\<lparr>m_connecting := False, m_closed := True\<rparr>"

text \<open>
  Modelled from the spec: \<^verbatim>\<open>NamedPipe::openServerPipe\<close> is not among the sources. A server
  pipe starts its life connecting: "Returns a new server named pipe. It has not yet been
  connected."
\<close>

definition openServerPipe :: "wstring \<Rightarrow> NamedPipe \<Rightarrow> NamedPipe" where
  "openServerPipe pipeName p = p\<lparr>m_name := pipeName, m_connecting := True, m_closed := False\<rparr>"

text \<open>
  \<^verbatim>\<open>createDataServerPipe\<close> names a fresh pipe (the one \<^verbatim>\<open>createNamedPipe\<close> returns) with
  the prefix of the winpty pipes (two backslashes, a dot, a backslash, \<^verbatim>\<open>pipe\<close>, a
  backslash, \<^verbatim>\<open>winpty-\<close>), the kind, a dash and the unique name that \<^verbatim>\<open>GenRandom\<close> gives,
  and opens it as a server.
\<close>

definition createDataServerPipe :: "bool \<Rightarrow> wstring \<Rightarrow> wstring \<Rightarrow> NamedPipe \<Rightarrow> NamedPipe" where
  "createDataServerPipe writing kind uniqueName fresh =
     (let pipeName = [0x5C, 0x5C, 0x2E, 0x5C] @ wide ''pipe'' @ [0x5C] @ wide ''winpty-''
                       @ kind @ wide ''-'' @ uniqueName;
          pipe = openServerPipe pipeName fresh
      in if \<not> writing then setReadBufferSize (64 * 1024) pipe else pipe)"

section \<open>ReadBuffer and WriteBuffer\<close>

text \<open>
  Modelled from the spec: \<^verbatim>\<open>shared/Buffer.h\<close> is not among the sources. The body of a
  frame is a sequence of fixed-width integers and length-prefixed wide-character strings;
  reading past the end, or finding bytes left over at \<open>assertEof\<close>, throws
  \<^verbatim>\<open>DecodeError\<close> (here \<open>None\<close>).
\<close>

record ReadBuffer =
  rb_buf :: "byte list"
  rb_off :: nat

definition getRawData :: "nat \<Rightarrow> ReadBuffer \<Rightarrow> (byte list \<times> ReadBuffer) option" where
  "getRawData n rb =
     (if rb_off rb + n \<le> length (rb_buf rb)
      then Some (take n (drop (rb_off rb) (rb_buf rb)), rb\<lparr>rb_off := rb_off rb + n\<rparr>)
      else None)"

definition getRawValue_uint64 :: "ReadBuffer \<Rightarrow> (nat \<times> ReadBuffer) option" where
  "getRawValue_uint64 rb = map_option (\<lambda>(bs, rb'). (le_value bs, rb')) (getRawData 8 rb)"

definition getInt32 :: "ReadBuffer \<Rightarrow> (32 word \<times> ReadBuffer) option" where
  "getInt32 rb = map_option (\<lambda>(bs, rb'). (of_nat (le_value bs), rb')) (getRawData 4 rb)"

definition getInt64 :: "ReadBuffer \<Rightarrow> (64 word \<times> ReadBuffer) option" where
  "getInt64 rb = map_option (\<lambda>(bs, rb'). (of_nat (le_value bs), rb')) (getRawData 8 rb)"

definition getWString :: "ReadBuffer \<Rightarrow> (wstring \<times> ReadBuffer) option" where
  "getWString rb =
     (case getRawValue_uint64 rb of
        None \<Rightarrow> None
      | Some (len, rb') \<Rightarrow>
          map_option (\<lambda>(bs, rb''). (wchars_of_bytes bs, rb'')) (getRawData (2 * len) rb'))"

definition eof :: "ReadBuffer \<Rightarrow> bool" where
  "eof rb = (rb_off rb = length (rb_buf rb))"

type_synonym WriteBuffer = "byte list"

definition putRawValue_uint64 :: "nat \<Rightarrow> WriteBuffer \<Rightarrow> WriteBuffer" where
  "putRawValue_uint64 v b = b @ le_bytes 8 v"

definition putInt32 :: "32 word \<Rightarrow> WriteBuffer \<Rightarrow> WriteBuffer" where
  "putInt32 v b = b @ le_bytes 4 (unat v)"

definition putInt64 :: "64 word \<Rightarrow> WriteBuffer \<Rightarrow> WriteBuffer" where
  "putInt64 v b = b @ le_bytes 8 (unat v)"

definition putWString :: "wstring \<Rightarrow> WriteBuffer \<Rightarrow> WriteBuffer" where
  "putWString s b = b @ le_bytes 8 (length s) @ bytes_of_wchars s"

definition replaceRawValue_uint64 :: "nat \<Rightarrow> nat \<Rightarrow> WriteBuffer \<Rightarrow> WriteBuffer" where
  "replaceRawValue_uint64 pos v b = take pos b @ le_bytes 8 v @ drop (pos + 8) b"

section \<open>The console and its screen buffers\<close>

text \<open>
  Modelled from the spec: the coordinate types of the console headers are not among the
  sources. A position or size has two components, a rectangle is given as
  \<^verbatim>\<open>SmallRect(x, y, width, height)\<close>, and the buffer information holds the size of the
  buffer, its window and the cursor; \<^verbatim>\<open>windowRect\<close> is its window.
\<close>

record Coord =
  X :: int
  Y :: int

record SmallRect =
  rect_x :: int
  rect_y :: int
  rect_width :: int
  rect_height :: int

record ConsoleScreenBufferInfo =
  dwSize :: Coord
  srWindow :: SmallRect
  dwCursorPosition :: Coord

definition windowRect :: "ConsoleScreenBufferInfo \<Rightarrow> SmallRect" where
  "windowRect info = srWindow info"

text \<open>The two system commands that suspend the console.\<close>

datatype FreezeCommand = MARK | SELECT_ALL

text \<open>
  Modelled from the spec: \<^verbatim>\<open>Win32Console.h\<close> is not among the sources. The console is
  frozen by sending it one of the two commands, chosen by \<open>m_freezeUsesMark\<close>, and unfrozen
  by cancelling it; \<open>con_selection\<close> is the command in effect in the console window, if any,
  and \<open>con_title\<close> the title of the window.
\<close>

record Win32Console =
  m_frozen :: bool
  m_freezeUsesMark :: bool
  con_selection :: "FreezeCommand option"
  con_title :: wstring

definition frozen :: "Win32Console \<Rightarrow> bool" where
  "frozen c = m_frozen c"

definition setFreezeUsesMark :: "bool \<Rightarrow> Win32Console \<Rightarrow> Win32Console" where
  "setFreezeUsesMark useMark c = c\<lparr>m_freezeUsesMark := useMark\<rparr>"

definition setFrozen :: "bool \<Rightarrow> Win32Console \<Rightarrow> Win32Console" where
  "setFrozen f c =
     (if f = m_frozen c then c
      else if f then
        c\<lparr>m_frozen := True,
          con_selection := Some (if m_freezeUsesMark c then MARK else SELECT_ALL)\<rparr>
      else c\<lparr>m_frozen := False, con_selection := None\<rparr>)"

definition title :: "Win32Console \<Rightarrow> wstring" where
  "title c = con_title c"

text \<open>
  Modelled from the spec: \<^verbatim>\<open>Win32ConsoleBuffer.h\<close> is not among the sources. A screen
  buffer has a size, a window and a cursor. The cursor position that the console reports
  while a freeze command is in effect is the platform's: \<open>freezeCursor cmd pos\<close> is what is
  read when the cursor is at \<open>pos\<close>.
\<close>

record Win32ConsoleBuffer =
  cb_size :: Coord
  cb_window :: SmallRect
  cb_cursor :: Coord

definition bufferInfo :: "Win32ConsoleBuffer \<Rightarrow> ConsoleScreenBufferInfo" where
  "bufferInfo b = \<lparr>dwSize = cb_size b, srWindow = cb_window b, dwCursorPosition = cb_cursor b\<rparr>"

definition resizeBuffer :: "Coord \<Rightarrow> Win32ConsoleBuffer \<Rightarrow> Win32ConsoleBuffer" where
  "resizeBuffer sz b = b\<lparr>cb_size := sz\<rparr>"

definition moveWindow :: "SmallRect \<Rightarrow> Win32ConsoleBuffer \<Rightarrow> Win32ConsoleBuffer" where
  "moveWindow r b = b\<lparr>cb_window := r\<rparr>"

definition setCursorPosition :: "Coord \<Rightarrow> Win32ConsoleBuffer \<Rightarrow> Win32ConsoleBuffer" where
  "setCursorPosition pos b = b\<lparr>cb_cursor := pos\<rparr>"

definition cursorPosition ::
  "(FreezeCommand \<Rightarrow> Coord \<Rightarrow> Coord) \<Rightarrow> Win32Console \<Rightarrow> Win32ConsoleBuffer \<Rightarrow> Coord" where
  "cursorPosition freezeCursor c b =
     (case con_selection c of
        None \<Rightarrow> cb_cursor b
      | Some cmd \<Rightarrow> freezeCursor cmd (cb_cursor b))"

section \<open>The platform and the collaborators\<close>

text \<open>The arguments \<^verbatim>\<open>handleStartProcessPacket\<close> passes to \<^verbatim>\<open>CreateProcessW\<close>.\<close>

record CreateProcessArgs =
  lpApplicationName :: "wstring option"
  lpCommandLine :: "wstring option"
  bInheritHandles :: bool
  lpEnvironment :: "wstring option"
  lpCurrentDirectory :: "wstring option"
  lpDesktop :: "wstring option"
  useStdHandles :: bool

text \<open>
  The calls the agent makes into the operating system and into its scrapers, in order.
  The flag of a scraper call says whether it is the scraper of the error buffer.
\<close>

datatype call =
    CreateProcessW_call CreateProcessArgs
  | DuplicateHandle_call HANDLE
  | CloseHandle_call HANDLE
  | resizeWindow_call bool Coord
  | scrapeBuffer_call bool

text \<open>
  What is declared outside \<^verbatim>\<open>Agent.cc\<close> is a parameter: the constants of the headers
  (\<^verbatim>\<open>SIZE_MAX\<close>, the bounds of a console size, the message and result codes, the spawn
  flag), the operating system, and the collaborators (\<^verbatim>\<open>Scraper\<close> with its \<^verbatim>\<open>Terminal\<close>,
  of state \<open>'scr\<close>; \<^verbatim>\<open>ConsoleInput\<close>, of state \<open>'ci\<close>).
  \<^item> \<open>CreateProcessW args\<close> is \<open>Inl\<close> the last error, or \<open>Inr\<close> the handles of the new
    process and of its first thread;
  \<^item> \<open>DuplicateHandle h\<close> is \<open>None\<close> when the duplication fails;
  \<^item> \<open>processSignaled h\<close> says that \<^verbatim>\<open>WaitForSingleObject(h, 0)\<close> is \<^verbatim>\<open>WAIT_OBJECT_0\<close>;
  \<^item> \<open>freezeCursor cmd pos\<close> is the cursor position the console reports while frozen by
    \<open>cmd\<close> with the cursor at \<open>pos\<close>;
  \<^item> a scraper returns its new state, the screen buffer, the bytes its terminal writes to
    its output pipe and the buffer information; \<open>terminal_enableMouseMode\<close> returns the new
    state and the bytes written;
  \<^item> \<open>updateMouseInputFlags\<close> returns the new state of the console input and whether mouse
    input is to be enabled.
\<close>

record ('scr, 'ci) platform =
  SIZE_MAX :: nat
  MAX_CONSOLE_WIDTH :: int
  BUFFER_LINE_COUNT :: int
  AgentMsg_StartProcess :: "32 word"
  AgentMsg_SetSize :: "32 word"
  ProcessCreated :: "32 word"
  CreateProcessFailed :: "32 word"
  PipesStillOpen :: "32 word"
  WINPTY_SPAWN_FLAG_AUTO_SHUTDOWN :: "64 word"
  CreateProcessW :: "CreateProcessArgs \<Rightarrow> 32 word + HANDLE \<times> HANDLE"
  DuplicateHandle :: "HANDLE \<Rightarrow> HANDLE option"
  processSignaled :: "HANDLE \<Rightarrow> bool"
  utf8FromWide :: "wstring \<Rightarrow> byte list"
  freezeCursor :: "FreezeCommand \<Rightarrow> Coord \<Rightarrow> Coord"
  scraper_resizeWindow ::
    "'scr \<Rightarrow> Win32ConsoleBuffer \<Rightarrow> Coord
      \<Rightarrow> 'scr \<times> Win32ConsoleBuffer \<times> byte list \<times> ConsoleScreenBufferInfo"
  scraper_scrapeBuffer ::
    "'scr \<Rightarrow> Win32ConsoleBuffer
      \<Rightarrow> 'scr \<times> Win32ConsoleBuffer \<times> byte list \<times> ConsoleScreenBufferInfo"
  terminal_enableMouseMode :: "'scr \<Rightarrow> bool \<Rightarrow> 'scr \<times> byte list"
  updateMouseInputFlags :: "'ci \<Rightarrow> 'ci \<times> bool"
  flushIncompleteEscapeCode :: "'ci \<Rightarrow> 'ci"

text \<open>
  Modelled from the spec: \<^verbatim>\<open>ConsoleInput.h\<close> is not among the sources. The input
  translator keeps the window rectangle that its mouse coordinates refer to; the rest of
  its state is \<open>ci_state\<close>.
\<close>

record 'ci ConsoleInput =
  m_mouseWindowRect :: SmallRect
  ci_state :: 'ci

definition setMouseWindowRect :: "SmallRect \<Rightarrow> 'ci ConsoleInput \<Rightarrow> 'ci ConsoleInput" where
  "setMouseWindowRect r ci = ci\<lparr>m_mouseWindowRect := r\<rparr>"

section \<open>The agent\<close>

text \<open>
  The constructor creates \<^verbatim>\<open>m_errorBuffer\<close>, \<^verbatim>\<open>m_conerrPipe\<close> and \<^verbatim>\<open>m_errorScraper\<close>
  together, exactly when \<^verbatim>\<open>m_useConerr\<close> is set, and nothing resets them: they are one
  optional component, and the tests \<^verbatim>\<open>m_useConerr\<close>, \<^verbatim>\<open>m_conerrPipe != nullptr\<close> and
  \<^verbatim>\<open>if (m_errorScraper)\<close> all ask whether it is there. \<open>primaryBuffer\<close> is the screen buffer
  that \<^verbatim>\<open>openPrimaryBuffer\<close> opens, \<open>m_exiting\<close> the flag that \<^verbatim>\<open>shutdown\<close> of the event loop
  sets, \<open>calls\<close> the calls made so far.
\<close>

record 'scr Conerr =
  m_errorBuffer :: Win32ConsoleBuffer
  m_conerrPipe :: NamedPipe
  m_errorScraper :: 'scr

record ('scr, 'ci) Agent =
  m_console :: Win32Console
  primaryBuffer :: Win32ConsoleBuffer
  m_conerr :: "'scr Conerr option"
  m_controlPipe :: NamedPipe
  m_coninPipe :: NamedPipe
  m_conoutPipe :: NamedPipe
  m_primaryScraper :: 'scr
  m_consoleInput :: "'ci ConsoleInput"
  m_childProcess :: "HANDLE option"
  m_autoShutdown :: bool
  m_closingOutputPipes :: bool
  m_currentTitle :: wstring
  m_exiting :: bool
  calls :: "call list"

definition m_useConerr :: "('scr, 'ci) Agent \<Rightarrow> bool" where
  "m_useConerr a = (m_conerr a \<noteq> None)"

text \<open>Modelled from the spec: \<^verbatim>\<open>EventLoop::shutdown\<close> is not among the sources; it stops the loop.\<close>

definition shutdown :: "('scr, 'ci) Agent \<Rightarrow> ('scr, 'ci) Agent" where
  "shutdown a = a\<lparr>m_exiting := True\<rparr>"

section \<open>Freeze calibration\<close>

definition initConsoleFreezeMethod ::
  "('scr, 'ci) platform \<Rightarrow> Win32Console \<Rightarrow> Win32ConsoleBuffer
    \<Rightarrow> (Win32Console \<times> Win32ConsoleBuffer) stop + Win32Console \<times> Win32ConsoleBuffer" where
  "initConsoleFreezeMethod env console buffer =
     (let info = bufferInfo buffer;
          buffer1 = resizeBuffer \<lparr>X = max 2 (X (dwSize info)), Y = max 2 (Y (dwSize info))\<rparr> buffer;
          buffer2 = moveWindow \<lparr>rect_x = 0, rect_y = 0, rect_width = 2, rect_height = 2\<rparr> buffer1;
          initialPosition = \<lparr>X = 1, Y = 1\<rparr>;
          buffer3 = setCursorPosition initialPosition buffer2
      in if frozen console then Inl (Fatal ''!console.frozen()'' (console, buffer3))
         else
           let console1 = setFreezeUsesMark True console;
               console2 = setFrozen True console1;
               useMark = (cursorPosition (freezeCursor env) console2 buffer3 = initialPosition);
               console3 = setFrozen False console2
           in Inr (setFreezeUsesMark useMark console3, buffer3))"

section \<open>Packets\<close>

definition newPacket :: WriteBuffer where
  "newPacket = putRawValue_uint64 0 []"

definition writePacket :: "WriteBuffer \<Rightarrow> ('scr, 'ci) Agent \<Rightarrow> ('scr, 'ci) Agent" where
  "writePacket packet a =
     (let bytes = replaceRawValue_uint64 0 (length packet) packet
      in a\<lparr>m_controlPipe := write_pipe bytes (m_controlPipe a)\<rparr>)"

section \<open>Resizing, scraping and the title\<close>

definition resizeWindow ::
  "('scr, 'ci) platform \<Rightarrow> int \<Rightarrow> int \<Rightarrow> ('scr, 'ci) Agent \<Rightarrow> ('scr, 'ci) Agent" where
  "resizeWindow env cols rows a =
     (if cols < 1 \<or> cols > MAX_CONSOLE_WIDTH env \<or> rows < 1 \<or> rows > BUFFER_LINE_COUNT env - 1
      then a
      else
        let previous = frozen (m_console a);
            a1 = a\<lparr>m_console := setFrozen True (m_console a)\<rparr>;
            newSize = \<lparr>X = cols, Y = rows\<rparr>;
            (scr, buf, out, info) =
              scraper_resizeWindow env (m_primaryScraper a1) (primaryBuffer a1) newSize;
            a2 = a1\<lparr>m_primaryScraper := scr, primaryBuffer := buf,
                    m_conoutPipe := write_pipe out (m_conoutPipe a1),
                    calls := calls a1 @ [resizeWindow_call False newSize]\<rparr>;
            a3 = a2\<lparr>m_consoleInput := setMouseWindowRect (windowRect info) (m_consoleInput a2)\<rparr>;
            a4 = (case m_conerr a3 of
                    None \<Rightarrow> a3
                  | Some e \<Rightarrow>
                      let (escr, ebuf, eout, einfo) =
                            scraper_resizeWindow env (m_errorScraper e) (m_errorBuffer e) newSize
                      in a3\<lparr>m_conerr :=
                               Some (e\<lparr>m_errorScraper := escr, m_errorBuffer := ebuf,
                                       m_conerrPipe := write_pipe eout (m_conerrPipe e)\<rparr>),
                             calls := calls a3 @ [resizeWindow_call True newSize]\<rparr>)
        in a4\<lparr>m_console := setFrozen previous (m_console a4)\<rparr>)"

definition scrapeBuffers :: "('scr, 'ci) platform \<Rightarrow> ('scr, 'ci) Agent \<Rightarrow> ('scr, 'ci) Agent" where
  "scrapeBuffers env a =
     (let previous = frozen (m_console a);
          a1 = a\<lparr>m_console := setFrozen True (m_console a)\<rparr>;
          (scr, buf, out, info) = scraper_scrapeBuffer env (m_primaryScraper a1) (primaryBuffer a1);
          a2 = a1\<lparr>m_primaryScraper := scr, primaryBuffer := buf,
                  m_conoutPipe := write_pipe out (m_conoutPipe a1),
                  calls := calls a1 @ [scrapeBuffer_call False]\<rparr>;
          a3 = a2\<lparr>m_consoleInput := setMouseWindowRect (windowRect info) (m_consoleInput a2)\<rparr>;
          a4 = (case m_conerr a3 of
                  None \<Rightarrow> a3
                | Some e \<Rightarrow>
                    let (escr, ebuf, eout, einfo) =
                          scraper_scrapeBuffer env (m_errorScraper e) (m_errorBuffer e)
                    in a3\<lparr>m_conerr :=
                             Some (e\<lparr>m_errorScraper := escr, m_errorBuffer := ebuf,
                                     m_conerrPipe := write_pipe eout (m_conerrPipe e)\<rparr>),
                           calls := calls a3 @ [scrapeBuffer_call True]\<rparr>)
      in a4\<lparr>m_console := setFrozen previous (m_console a4)\<rparr>)"

text \<open>The command is \<^verbatim>\<open>"\x1b]0;" + utf8FromWide(newTitle) + "\x07"\<close>, written as a C string.\<close>

definition titleCommand :: "('scr, 'ci) platform \<Rightarrow> wstring \<Rightarrow> byte list" where
  "titleCommand env newTitle = [0x1B, 0x5D, 0x30, 0x3B] @ utf8FromWide env newTitle @ [0x07]"

definition syncConsoleTitle :: "('scr, 'ci) platform \<Rightarrow> ('scr, 'ci) Agent \<Rightarrow> ('scr, 'ci) Agent" where
  "syncConsoleTitle env a =
     (let newTitle = title (m_console a)
      in if newTitle \<noteq> m_currentTitle a
         then a\<lparr>m_conoutPipe := write_cstr (titleCommand env newTitle) (m_conoutPipe a),
                m_currentTitle := newTitle\<rparr>
         else a)"

section \<open>Automatic shutdown\<close>

definition autoClosePipesForShutdown :: "('scr, 'ci) Agent \<Rightarrow> ('scr, 'ci) Agent" where
  "autoClosePipesForShutdown a =
     (if m_closingOutputPipes a then
        let a1 = (if \<not> isClosed (m_conoutPipe a) \<and> bytesToSend (m_conoutPipe a) = 0
                  then a\<lparr>m_conoutPipe := closePipe (m_conoutPipe a)\<rparr>
                  else a)
        in (case m_conerr a1 of
              None \<Rightarrow> a1
            | Some e \<Rightarrow>
                if \<not> isClosed (m_conerrPipe e) \<and> bytesToSend (m_conerrPipe e) = 0
                then a1\<lparr>m_conerr := Some (e\<lparr>m_conerrPipe := closePipe (m_conerrPipe e)\<rparr>)\<rparr>
                else a1)
      else a)"

definition onPollTimeout :: "('scr, 'ci) platform \<Rightarrow> ('scr, 'ci) Agent \<Rightarrow> ('scr, 'ci) Agent" where
  "onPollTimeout env a =
     (let (ci1, enableMouseMode) = updateMouseInputFlags env (ci_state (m_consoleInput a));
          ci2 = flushIncompleteEscapeCode env ci1;
          a1 = a\<lparr>m_consoleInput := (m_consoleInput a)\<lparr>ci_state := ci2\<rparr>\<rparr>;
          shouldScrapeContent = (\<not> m_closingOutputPipes a1);
          a2 = (case m_childProcess a1 of
                  None \<Rightarrow> a1
                | Some h \<Rightarrow>
                    if m_autoShutdown a1 \<and> processSignaled env h
                    then a1\<lparr>calls := calls a1 @ [CloseHandle_call h],
                            m_childProcess := None,
                            m_closingOutputPipes := True\<rparr>
                    else a1);
          a3 = (if shouldScrapeContent then scrapeBuffers env (syncConsoleTitle env a2) else a2);
          (scr, out) = terminal_enableMouseMode env (m_primaryScraper a3)
                         (enableMouseMode \<and> \<not> m_closingOutputPipes a3);
          a4 = a3\<lparr>m_primaryScraper := scr, m_conoutPipe := write_pipe out (m_conoutPipe a3)\<rparr>
      in autoClosePipesForShutdown a4)"

section \<open>The request handlers\<close>

record StartProcessRequest =
  spawnFlags :: "64 word"
  wantProcessHandle :: bool
  wantThreadHandle :: bool
  program :: wstring
  cmdline :: wstring
  cwd :: wstring
  environ :: wstring
  desktop :: wstring

text \<open>The fields of a StartProcess request, in the order they are read, up to \<^verbatim>\<open>assertEof\<close>.\<close>

definition readStartProcessFields :: "ReadBuffer \<Rightarrow> StartProcessRequest option" where
  "readStartProcessFields packet =
     do {
       (flags, p1) \<leftarrow> getInt64 packet;
       (wantProcess, p2) \<leftarrow> getInt32 p1;
       (wantThread, p3) \<leftarrow> getInt32 p2;
       (prog, p4) \<leftarrow> getWString p3;
       (cmd, p5) \<leftarrow> getWString p4;
       (dir, p6) \<leftarrow> getWString p5;
       (env, p7) \<leftarrow> getWString p6;
       (desk, p8) \<leftarrow> getWString p7;
       if eof p8
       then Some \<lparr>spawnFlags = flags, wantProcessHandle = (wantProcess \<noteq> 0),
                  wantThreadHandle = (wantThread \<noteq> 0), program = prog, cmdline = cmd,
                  cwd = dir, environ = env, desktop = desk\<rparr>
       else None
     }"

text \<open>
  The loop over \<^verbatim>\<open>{ m_coninPipe, m_conoutPipe, m_conerrPipe }\<close> that collects the names of
  the pipes still connecting; a null pointer is \<open>None\<close>.
\<close>

definition appendPipeName :: "wstring \<Rightarrow> NamedPipe option \<Rightarrow> wstring" where
  "appendPipeName pipeList pipe =
     (case pipe of
        None \<Rightarrow> pipeList
      | Some p \<Rightarrow>
          if isConnecting p
          then (if pipeList \<noteq> [] then pipeList @ wide '', '' else pipeList) @ name p
          else pipeList)"

definition connectingPipeList :: "('scr, 'ci) Agent \<Rightarrow> wstring" where
  "connectingPipeList a =
     foldl appendPipeName []
       [Some (m_coninPipe a), Some (m_conoutPipe a), map_option m_conerrPipe (m_conerr a)]"

definition vectorWithNulFromString :: "wstring \<Rightarrow> wstring" where
  "vectorWithNulFromString str = str @ [0]"

definition vectorFromString :: "wstring \<Rightarrow> wstring" where
  "vectorFromString str = str"

definition int64FromHandle :: "HANDLE \<Rightarrow> 64 word" where
  "int64FromHandle h = of_int h"

definition duplicateHandle ::
  "('scr, 'ci) platform \<Rightarrow> HANDLE \<Rightarrow> ('scr, 'ci) Agent
    \<Rightarrow> ('scr, 'ci) Agent stop + HANDLE \<times> ('scr, 'ci) Agent" where
  "duplicateHandle env h a =
     (let a1 = a\<lparr>calls := calls a @ [DuplicateHandle_call h]\<rparr>
      in case DuplicateHandle env h of
           None \<Rightarrow> Inl (Fatal ''false && DuplicateHandle failed!'' a1)
         | Some ret \<Rightarrow> Inr (ret, a1))"

definition createProcessArgs :: "('scr, 'ci) Agent \<Rightarrow> StartProcessRequest \<Rightarrow> CreateProcessArgs" where
  "createProcessArgs a req =
     \<lparr>lpApplicationName = (if program req = [] then None else Some (program req)),
      lpCommandLine =
        (if cmdline req = [] then None else Some (vectorWithNulFromString (cmdline req))),
      bInheritHandles = m_useConerr a,
      lpEnvironment = (if environ req = [] then None else Some (vectorFromString (environ req))),
      lpCurrentDirectory = (if cwd req = [] then None else Some (cwd req)),
      lpDesktop =
        (if desktop req = [] then None else Some (vectorWithNulFromString (desktop req))),
      useStdHandles = m_useConerr a\<rparr>"

definition handleStartProcessPacket ::
  "('scr, 'ci) platform \<Rightarrow> ReadBuffer \<Rightarrow> ('scr, 'ci) Agent
    \<Rightarrow> ('scr, 'ci) Agent stop + ('scr, 'ci) Agent" where
  "handleStartProcessPacket env packet a =
     (if m_childProcess a \<noteq> None then Inl (Fatal ''m_childProcess == nullptr'' a)
      else if m_closingOutputPipes a then Inl (Fatal ''!m_closingOutputPipes'' a)
      else
        case readStartProcessFields packet of
          None \<Rightarrow> Inl (DecodeError a)
        | Some req \<Rightarrow>
            let pipeList = connectingPipeList a
            in if pipeList \<noteq> []
               then Inr (writePacket (putWString pipeList (putInt32 (PipesStillOpen env) newPacket)) a)
               else
                 let args = createProcessArgs a req;
                     a1 = a\<lparr>calls := calls a @ [CreateProcessW_call args]\<rparr>
                 in (case CreateProcessW env args of
                      Inl lastError \<Rightarrow>
                        Inr (writePacket
                               (putInt32 lastError (putInt32 (CreateProcessFailed env) newPacket)) a1)
                    | Inr (hProcess, hThread) \<Rightarrow>
                        (case (if wantProcessHandle req
                               then map_sum id (\<lambda>(h, s). (int64FromHandle h, s))
                                      (duplicateHandle env hProcess a1)
                               else Inr (0, a1)) of
                           Inl stop \<Rightarrow> Inl stop
                         | Inr (replyProcess, a2) \<Rightarrow>
                             (case (if wantThreadHandle req
                                    then map_sum id (\<lambda>(h, s). (int64FromHandle h, s))
                                           (duplicateHandle env hThread a2)
                                    else Inr (0, a2)) of
                                Inl stop \<Rightarrow> Inl stop
                              | Inr (replyThread, a3) \<Rightarrow>
                                  let a4 = a3\<lparr>calls := calls a3 @ [CloseHandle_call hThread],
                                               m_childProcess := Some hProcess,
                                               m_autoShutdown :=
                                                 ((spawnFlags req AND WINPTY_SPAWN_FLAG_AUTO_SHUTDOWN env)
                                                    \<noteq> 0)\<rparr>
                                  in Inr (writePacket
                                            (putInt64 replyThread
                                               (putInt64 replyProcess
                                                  (putInt32 (ProcessCreated env) newPacket)))
                                            a4)))))"

definition readSetSizeFields :: "ReadBuffer \<Rightarrow> (int \<times> int) option" where
  "readSetSizeFields packet =
     do {
       (cols, p1) \<leftarrow> getInt32 packet;
       (rows, p2) \<leftarrow> getInt32 p1;
       if eof p2 then Some (sint cols, sint rows) else None
     }"

definition handleSetSizePacket ::
  "('scr, 'ci) platform \<Rightarrow> ReadBuffer \<Rightarrow> ('scr, 'ci) Agent
    \<Rightarrow> ('scr, 'ci) Agent stop + ('scr, 'ci) Agent" where
  "handleSetSizePacket env packet a =
     (case readSetSizeFields packet of
        None \<Rightarrow> Inl (DecodeError a)
      | Some (cols, rows) \<Rightarrow> Inr (writePacket newPacket (resizeWindow env cols rows a)))"

definition handlePacket ::
  "('scr, 'ci) platform \<Rightarrow> ReadBuffer \<Rightarrow> ('scr, 'ci) Agent
    \<Rightarrow> ('scr, 'ci) Agent stop + ('scr, 'ci) Agent" where
  "handlePacket env packet a =
     (case getInt32 packet of
        None \<Rightarrow> Inl (DecodeError a)
      | Some (type, packet1) \<Rightarrow>
          if type = AgentMsg_StartProcess env then handleStartProcessPacket env packet1 a
          else if type = AgentMsg_SetSize env then handleSetSizePacket env packet1 a
          else Inr a)"

section \<open>The control pipe\<close>

text \<open>
  One pass through the body of the \<^verbatim>\<open>while (true)\<close> loop of \<^verbatim>\<open>pollControlPipe\<close>: it
  leaves the loop (\<open>Break\<close>), goes round again (\<open>Continue\<close>) or aborts on a failed
  assertion (\<open>Abort\<close>, with the condition and the state at the abort).
\<close>

datatype 's iteration = Break 's | Continue 's | Abort string 's

definition pollControlPipe_body ::
  "('scr, 'ci) platform \<Rightarrow> ('scr, 'ci) Agent \<Rightarrow> ('scr, 'ci) Agent iteration" where
  "pollControlPipe_body env a =
     (let header = peek 8 (m_controlPipe a);
          amt1 = length header;
          packetSize = le_value header
      in if amt1 < 8 then Break a
         else if \<not> (packetSize \<ge> 8 \<and> packetSize \<le> SIZE_MAX env)
         then Abort ''packetSize >= sizeof(packetSize) && packetSize <= SIZE_MAX'' a
         else if bytesAvailable (m_controlPipe a) < packetSize
         then Break (if readBufferSize (m_controlPipe a) < packetSize
                     then a\<lparr>m_controlPipe := setReadBufferSize packetSize (m_controlPipe a)\<rparr>
                     else a)
         else
           let (packetData, pipe) = read packetSize (m_controlPipe a);
               a1 = a\<lparr>m_controlPipe := pipe\<rparr>;
               amt2 = length packetData
           in if amt2 \<noteq> packetSize then Abort ''amt2 == packetSize'' a1
              else
                case getRawValue_uint64 \<lparr>rb_buf = packetData, rb_off = 0\<rparr> of
                  None \<Rightarrow> Abort ''false && Decode error'' a1
                | Some (discarded, buffer) \<Rightarrow>
                    (case handlePacket env buffer a1 of
                       Inl (DecodeError s) \<Rightarrow> Abort ''false && Decode error'' s
                     | Inl (Fatal msg s) \<Rightarrow> Abort msg s
                     | Inr a2 \<Rightarrow> Continue a2))"

text \<open>
  The state a run ends in, whether it returns or aborts; the bytes waiting in the control
  pipe; and the length a frame declares in its first eight bytes.
\<close>

definition stop_state :: "'s stop \<Rightarrow> 's" where
  "stop_state st = (case st of Fatal msg s \<Rightarrow> s | DecodeError s \<Rightarrow> s)"

definition final_state :: "'s stop + 's \<Rightarrow> 's" where
  "final_state r = (case r of Inl st \<Rightarrow> stop_state st | Inr s \<Rightarrow> s)"

definition iteration_state :: "'s iteration \<Rightarrow> 's" where
  "iteration_state r = (case r of Break s \<Rightarrow> s | Continue s \<Rightarrow> s | Abort msg s \<Rightarrow> s)"

definition pending :: "('scr, 'ci) Agent \<Rightarrow> byte list" where
  "pending a = m_inQueue (m_controlPipe a)"

definition declaredLength :: "byte list \<Rightarrow> nat" where
  "declaredLength frame = le_value (take 8 frame)"

text \<open>
  The handlers write replies to the control pipe and never read from it, so each pass that
  goes round again has taken the bytes of one packet, eight at least, off the queue: the
  loop ends.
\<close>

function pollControlPipe_loop ::
  "('scr, 'ci) platform \<Rightarrow> ('scr, 'ci) Agent \<Rightarrow> ('scr, 'ci) Agent stop + ('scr, 'ci) Agent" where
  "pollControlPipe_loop env a =
     (case pollControlPipe_body env a of
        Break a1 \<Rightarrow> Inr a1
      | Abort msg s \<Rightarrow> Inl (Fatal msg s)
      | Continue a1 \<Rightarrow> pollControlPipe_loop env a1)"
  by pat_completeness auto
termination
proof (relation "measure (\<lambda>(env, a). length (pending a))")
  show "wf (measure (\<lambda>(env :: ('scr, 'ci) platform, a :: ('scr, 'ci) Agent). length (pending a)))"
    by simp
next
  fix env :: "('scr, 'ci) platform" and a a1 :: "('scr, 'ci) Agent"
  assume step: "pollControlPipe_body env a = Continue a1"
  have reply: "m_inQueue (m_controlPipe (writePacket p s)) = m_inQueue (m_controlPipe s)"
    for p and s :: "('scr, 'ci) Agent"
    by (simp add: writePacket_def write_pipe_def Let_def)
  have resize: "m_controlPipe (resizeWindow env cols rows s) = m_controlPipe s"
    for cols rows and s :: "('scr, 'ci) Agent"
    by (simp add: resizeWindow_def Let_def split: prod.splits option.splits)
  have spawn: "handleStartProcessPacket env p s = Inr s' \<Longrightarrow>
      m_inQueue (m_controlPipe s') = m_inQueue (m_controlPipe s)"
    for p and s s' :: "('scr, 'ci) Agent"
    by (auto simp: handleStartProcessPacket_def Let_def reply map_sum_def duplicateHandle_def
          split: if_splits option.splits sum.splits prod.splits)
  have size: "handleSetSizePacket env p s = Inr s' \<Longrightarrow>
      m_inQueue (m_controlPipe s') = m_inQueue (m_controlPipe s)"
    for p and s s' :: "('scr, 'ci) Agent"
    by (auto simp: handleSetSizePacket_def reply resize split: option.splits)
  have packet: "handlePacket env p s = Inr s' \<Longrightarrow>
      m_inQueue (m_controlPipe s') = m_inQueue (m_controlPipe s)"
    for p and s s' :: "('scr, 'ci) Agent"
    by (auto simp: handlePacket_def dest: spawn size split: option.splits if_splits)
  from step have "length (m_inQueue (m_controlPipe a1)) < length (m_inQueue (m_controlPipe a))"
    by (auto simp: pollControlPipe_body_def Let_def read_def peek_def bytesAvailable_def
          dest!: packet
          split: if_splits prod.splits option.splits sum.splits stop.splits)
  then show "((env, a1), (env, a)) \<in> measure (\<lambda>(env, a). length (pending a))"
    by (simp add: pending_def)
qed

declare pollControlPipe_loop.simps [simp del]

definition pollControlPipe ::
  "('scr, 'ci) platform \<Rightarrow> ('scr, 'ci) Agent \<Rightarrow> ('scr, 'ci) Agent stop + ('scr, 'ci) Agent" where
  "pollControlPipe env a =
     (if isClosed (m_controlPipe a) then Inr (shutdown a)
      else pollControlPipe_loop env a)"

section \<open>Notions the properties are stated with\<close>

text \<open>
  The data pipes in the order they are created, and their names joined with a comma and a
  space, as \<^verbatim>\<open>pipeList\<close> is built.
\<close>

definition dataPipes :: "('scr, 'ci) Agent \<Rightarrow> NamedPipe list" where
  "dataPipes a =
     [m_coninPipe a, m_conoutPipe a] @ (case m_conerr a of None \<Rightarrow> [] | Some e \<Rightarrow> [m_conerrPipe e])"

fun joinNames :: "wstring list \<Rightarrow> wstring" where
  "joinNames [] = []"
| "joinNames [n] = n"
| "joinNames (n # ns) = n @ wide '', '' @ joinNames ns"

text \<open>The cursor position of the calibration, and the command a console freezes with.\<close>

definition probe :: Coord where
  "probe = \<lparr>X = 1, Y = 1\<rparr>"

definition selectedCommand :: "Win32Console \<Rightarrow> FreezeCommand" where
  "selectedCommand c = (if m_freezeUsesMark c then MARK else SELECT_ALL)"

text \<open>
  The bytes a title command puts on the output pipe; a run of title-sync passes, the
  console showing the given titles in turn; and what the primary output pipe has to send.
\<close>

definition titleBytes :: "('scr, 'ci) platform \<Rightarrow> wstring \<Rightarrow> byte list" where
  "titleBytes env t = takeWhile (\<lambda>b. b \<noteq> 0) (titleCommand env t)"

fun titlePasses ::
  "('scr, 'ci) platform \<Rightarrow> wstring list \<Rightarrow> ('scr, 'ci) Agent \<Rightarrow> ('scr, 'ci) Agent" where
  "titlePasses env [] a = a"
| "titlePasses env (t # ts) a =
     titlePasses env ts (syncConsoleTitle env (a\<lparr>m_console := (m_console a)\<lparr>con_title := t\<rparr>\<rparr>))"

definition conout :: "('scr, 'ci) Agent \<Rightarrow> byte list" where
  "conout a = m_outQueue (m_conoutPipe a)"

text \<open>
  The state of a tick just before it ends with \<^verbatim>\<open>autoClosePipesForShutdown\<close>; the pipe
  of the error stream, if there is one; whether a tick finds the child exited; the calls of
  one scrape pass; and what one evaluation does to one output pipe.
\<close>

definition beforeAutoClose ::
  "('scr, 'ci) platform \<Rightarrow> ('scr, 'ci) Agent \<Rightarrow> ('scr, 'ci) Agent" where
  "beforeAutoClose env a =
     (let (ci1, enableMouseMode) = updateMouseInputFlags env (ci_state (m_consoleInput a));
          ci2 = flushIncompleteEscapeCode env ci1;
          a1 = a\<lparr>m_consoleInput := (m_consoleInput a)\<lparr>ci_state := ci2\<rparr>\<rparr>;
          shouldScrapeContent = (\<not> m_closingOutputPipes a1);
          a2 = (case m_childProcess a1 of
                  None \<Rightarrow> a1
                | Some h \<Rightarrow>
                    if m_autoShutdown a1 \<and> processSignaled env h
                    then a1\<lparr>calls := calls a1 @ [CloseHandle_call h],
                            m_childProcess := None,
                            m_closingOutputPipes := True\<rparr>
                    else a1);
          a3 = (if shouldScrapeContent then scrapeBuffers env (syncConsoleTitle env a2) else a2);
          (scr, out) = terminal_enableMouseMode env (m_primaryScraper a3)
                         (enableMouseMode \<and> \<not> m_closingOutputPipes a3)
      in a3\<lparr>m_primaryScraper := scr, m_conoutPipe := write_pipe out (m_conoutPipe a3)\<rparr>)"

definition conerrPipe :: "('scr, 'ci) Agent \<Rightarrow> NamedPipe option" where
  "conerrPipe a = map_option m_conerrPipe (m_conerr a)"

definition exitObserved :: "('scr, 'ci) platform \<Rightarrow> ('scr, 'ci) Agent \<Rightarrow> bool" where
  "exitObserved env a =
     (m_autoShutdown a \<and> (case m_childProcess a of None \<Rightarrow> False | Some h \<Rightarrow> processSignaled env h))"

definition scrapeCalls :: "('scr, 'ci) Agent \<Rightarrow> call list" where
  "scrapeCalls a =
     scrapeBuffer_call False # (case m_conerr a of None \<Rightarrow> [] | Some e \<Rightarrow> [scrapeBuffer_call True])"

definition closeWhenDrained :: "bool \<Rightarrow> NamedPipe \<Rightarrow> NamedPipe" where
  "closeWhenDrained closing p =
     (if closing \<and> \<not> isClosed p \<and> bytesToSend p = 0 then closePipe p else p)"

text \<open>
  What a tick that scrapes leaves behind is stated with the collaborators' own results:
  whether the input side asks for mouse mode; the bytes a title pass writes, none when the
  title is the cached one; and the error stream after its scraper has run, its output
  written to its pipe and the pipe closed if the agent is closing and the pipe is drained.
\<close>

definition mouseEnabled :: "('scr, 'ci) platform \<Rightarrow> ('scr, 'ci) Agent \<Rightarrow> bool" where
  "mouseEnabled env a = snd (updateMouseInputFlags env (ci_state (m_consoleInput a)))"

definition titleOutput :: "('scr, 'ci) platform \<Rightarrow> ('scr, 'ci) Agent \<Rightarrow> byte list" where
  "titleOutput env a =
     (if title (m_console a) \<noteq> m_currentTitle a then titleBytes env (title (m_console a)) else [])"

definition scrapedConerr ::
  "('scr, 'ci) platform \<Rightarrow> bool \<Rightarrow> 'scr Conerr \<Rightarrow> 'scr Conerr" where
  "scrapedConerr env closing e =
     (case scraper_scrapeBuffer env (m_errorScraper e) (m_errorBuffer e) of
        (escr, ebuf, eout, einfo) \<Rightarrow>
          e\<lparr>m_errorBuffer := ebuf,
            m_conerrPipe := closeWhenDrained closing (write_pipe eout (m_conerrPipe e)),
            m_errorScraper := escr\<rparr>)"

text \<open>In the closing phase no child is tracked: the tick that enters it forgets the child.\<close>

definition closingInvariant :: "('scr, 'ci) Agent \<Rightarrow> bool" where
  "closingInvariant a = (m_closingOutputPipes a \<longrightarrow> m_childProcess a = None)"

section \<open>A simulated platform\<close>

text \<open>
  A platform and an agent to run the definitions on: a legacy console, where MARK moves the
  reported cursor to the origin and SELECT_ALL leaves it; scrapers that write nothing; a
  process creation that succeeds; three data pipes, connected, and no error stream.
\<close>

definition sim_platform :: "(unit, unit) platform" where
  "sim_platform =
     \<lparr>SIZE_MAX = 4294967295,
      MAX_CONSOLE_WIDTH = 2500,
      BUFFER_LINE_COUNT = 3000,
      AgentMsg_StartProcess = 0,
      AgentMsg_SetSize = 1,
      ProcessCreated = 0,
      CreateProcessFailed = 1,
      PipesStillOpen = 2,
      WINPTY_SPAWN_FLAG_AUTO_SHUTDOWN = 1,
      CreateProcessW = (\<lambda>args. Inr (100, 104)),
      DuplicateHandle = (\<lambda>h. Some (h + 1000)),
      processSignaled = (\<lambda>h. True),
      utf8FromWide = map ucast,
      freezeCursor = (\<lambda>cmd pos. case cmd of MARK \<Rightarrow> \<lparr>X = 0, Y = 0\<rparr> | SELECT_ALL \<Rightarrow> pos),
      scraper_resizeWindow = (\<lambda>scr buf sz. (scr, resizeBuffer sz buf, [], bufferInfo (resizeBuffer sz buf))),
      scraper_scrapeBuffer = (\<lambda>scr buf. (scr, buf, [], bufferInfo buf)),
      terminal_enableMouseMode = (\<lambda>scr enabled. (scr, [])),
      updateMouseInputFlags = (\<lambda>ci. (ci, False)),
      flushIncompleteEscapeCode = (\<lambda>ci. ci)\<rparr>"

definition sim_pipe :: "string \<Rightarrow> NamedPipe" where
  "sim_pipe kind =
     \<lparr>m_name = wide kind, m_connecting = False, m_closed = False,
      m_inQueue = [], m_outQueue = [], m_readBufferSize = 65536\<rparr>"

definition sim_buffer :: Win32ConsoleBuffer where
  "sim_buffer =
     \<lparr>cb_size = \<lparr>X = 80, Y = 3000\<rparr>,
      cb_window = \<lparr>rect_x = 0, rect_y = 0, rect_width = 80, rect_height = 25\<rparr>,
      cb_cursor = \<lparr>X = 0, Y = 0\<rparr>\<rparr>"

definition sim_console :: Win32Console where
  "sim_console =
     \<lparr>m_frozen = False, m_freezeUsesMark = False, con_selection = None, con_title = []\<rparr>"

definition sim_agent :: "(unit, unit) Agent" where
  "sim_agent =
     \<lparr>m_console = sim_console,
      primaryBuffer = sim_buffer,
      m_conerr = None,
      m_controlPipe = sim_pipe ''control'',
      m_coninPipe = sim_pipe ''conin'',
      m_conoutPipe = sim_pipe ''conout'',
      m_primaryScraper = (),
      m_consoleInput =
        \<lparr>m_mouseWindowRect = \<lparr>rect_x = 0, rect_y = 0, rect_width = 80, rect_height = 25\<rparr>,
         ci_state = ()\<rparr>,
      m_childProcess = None,
      m_autoShutdown = False,
      m_closingOutputPipes = False,
      m_currentTitle = [],
      m_exiting = False,
      calls = []\<rparr>"

text \<open>The agent with the given bytes waiting in the control pipe, and a SetSize request.\<close>

definition sim_receiving :: "byte list \<Rightarrow> (unit, unit) Agent" where
  "sim_receiving bytes = sim_agent\<lparr>m_controlPipe := (sim_pipe ''control'')\<lparr>m_inQueue := bytes\<rparr>\<rparr>"

definition sim_SetSize_frame :: "byte list" where
  "sim_SetSize_frame = [20, 0, 0, 0, 0, 0, 0, 0,  1, 0, 0, 0,  80, 0, 0, 0,  24, 0, 0, 0]"

text \<open>
  The agent with the primary output pipe and an error stream still connecting; the body of
  a StartProcess request for \<^verbatim>\<open>cmd\<close> with the automatic shutdown flag; and the agent with
  a child tracked, automatic shutdown armed and two bytes still to send on the primary
  output pipe.
\<close>

definition sim_connecting :: "(unit, unit) Agent" where
  "sim_connecting =
     sim_agent
       \<lparr>m_conoutPipe := (sim_pipe ''conout'')\<lparr>m_connecting := True\<rparr>,
        m_conerr := Some \<lparr>m_errorBuffer = sim_buffer,
                          m_conerrPipe = (sim_pipe ''conerr'')\<lparr>m_connecting := True\<rparr>,
                          m_errorScraper = ()\<rparr>\<rparr>"

definition sim_StartProcess_body :: "byte list" where
  "sim_StartProcess_body =
     [1, 0, 0, 0, 0, 0, 0, 0,  0, 0, 0, 0,  0, 0, 0, 0,
      0, 0, 0, 0, 0, 0, 0, 0,
      3, 0, 0, 0, 0, 0, 0, 0,  0x63, 0, 0x6D, 0, 0x64, 0,
      0, 0, 0, 0, 0, 0, 0, 0,
      0, 0, 0, 0, 0, 0, 0, 0,
      0, 0, 0, 0, 0, 0, 0, 0]"

definition sim_exiting :: "(unit, unit) Agent" where
  "sim_exiting =
     sim_agent
       \<lparr>m_conerr := Some \<lparr>m_errorBuffer = sim_buffer, m_conerrPipe = sim_pipe ''conerr'',
                          m_errorScraper = ()\<rparr>,
        m_conoutPipe := (sim_pipe ''conout'')\<lparr>m_outQueue := [0x68, 0x69]\<rparr>,
        m_childProcess := Some 100,
        m_autoShutdown := True\<rparr>"

text \<open>
  A platform whose scraper does something: each scrape advances the scraper state by one,
  moves the cursor of the buffer to the column of the old state, and emits the byte
  \<^verbatim>\<open>A\<close> followed by the old state. Mouse mode is asked for and writes one byte when it
  is switched on. The agent has an error stream, a child that has exited and automatic
  shutdown armed.
\<close>

definition sim_scraping :: "(nat, unit) platform" where
  "sim_scraping =
     \<lparr>SIZE_MAX = 4294967295,
      MAX_CONSOLE_WIDTH = 2500,
      BUFFER_LINE_COUNT = 3000,
      AgentMsg_StartProcess = 0,
      AgentMsg_SetSize = 1,
      ProcessCreated = 0,
      CreateProcessFailed = 1,
      PipesStillOpen = 2,
      WINPTY_SPAWN_FLAG_AUTO_SHUTDOWN = 1,
      CreateProcessW = (\<lambda>args. Inr (100, 104)),
      DuplicateHandle = (\<lambda>h. Some (h + 1000)),
      processSignaled = (\<lambda>h. True),
      utf8FromWide = map ucast,
      freezeCursor = (\<lambda>cmd pos. case cmd of MARK \<Rightarrow> \<lparr>X = 0, Y = 0\<rparr> | SELECT_ALL \<Rightarrow> pos),
      scraper_resizeWindow = (\<lambda>scr buf sz. (scr, resizeBuffer sz buf, [], bufferInfo (resizeBuffer sz buf))),
      scraper_scrapeBuffer =
        (\<lambda>scr buf. (Suc scr, setCursorPosition \<lparr>X = int scr, Y = 7\<rparr> buf, [0x41, of_nat scr],
                     bufferInfo buf)),
      terminal_enableMouseMode = (\<lambda>scr enabled. (scr, if enabled then [0x4D] else [])),
      updateMouseInputFlags = (\<lambda>ci. (ci, True)),
      flushIncompleteEscapeCode = (\<lambda>ci. ci)\<rparr>"

definition sim_scraped :: "(nat, unit) Agent" where
  "sim_scraped =
     \<lparr>m_console = sim_console,
      primaryBuffer = sim_buffer,
      m_conerr = Some \<lparr>m_errorBuffer = sim_buffer, m_conerrPipe = sim_pipe ''conerr'',
                        m_errorScraper = 5\<rparr>,
      m_controlPipe = sim_pipe ''control'',
      m_coninPipe = sim_pipe ''conin'',
      m_conoutPipe = sim_pipe ''conout'',
      m_primaryScraper = 3,
      m_consoleInput =
        \<lparr>m_mouseWindowRect = \<lparr>rect_x = 0, rect_y = 0, rect_width = 1, rect_height = 1\<rparr>,
         ci_state = ()\<rparr>,
      m_childProcess = Some 100,
      m_autoShutdown = True,
      m_closingOutputPipes = False,
      m_currentTitle = [],
      m_exiting = False,
      calls = []\<rparr>"

section \<open>What the handlers leave in the control pipe\<close>

text \<open>No handler reads from the control pipe, whether it returns or aborts.\<close>

lemma writePacket_controlPipe_inQueue:
  "m_inQueue (m_controlPipe (writePacket p a)) = m_inQueue (m_controlPipe a)"
  by (simp add: writePacket_def write_pipe_def Let_def)

lemma resizeWindow_controlPipe:
  "m_controlPipe (resizeWindow env cols rows a) = m_controlPipe a"
  by (simp add: resizeWindow_def Let_def split: prod.splits option.splits)

lemma handleStartProcessPacket_pending:
  "pending (final_state (handleStartProcessPacket env p a)) = pending a"
  by (auto simp: handleStartProcessPacket_def Let_def writePacket_controlPipe_inQueue
           map_sum_def final_state_def stop_state_def pending_def duplicateHandle_def
           split: if_splits option.splits sum.splits prod.splits stop.splits)

lemma handleSetSizePacket_pending:
  "pending (final_state (handleSetSizePacket env p a)) = pending a"
  by (auto simp: handleSetSizePacket_def writePacket_controlPipe_inQueue resizeWindow_controlPipe
           final_state_def stop_state_def pending_def
           split: option.splits)

lemma handlePacket_pending:
  "pending (final_state (handlePacket env p a)) = pending a"
  using handleStartProcessPacket_pending [of env _ a] handleSetSizePacket_pending [of env _ a]
  by (auto simp: handlePacket_def final_state_def stop_state_def pending_def
           split: option.splits if_splits)

lemma handlePacket_pending_cases:
  "handlePacket env p a = Inr a' \<Longrightarrow> pending a' = pending a"
  "handlePacket env p a = Inl (Fatal msg s) \<Longrightarrow> pending s = pending a"
  "handlePacket env p a = Inl (DecodeError s) \<Longrightarrow> pending s = pending a"
  using handlePacket_pending [of env p a]
  by (simp_all add: final_state_def stop_state_def)

lemma pollControlPipe_body_pending:
  "(pending (iteration_state (pollControlPipe_body env a)) = pending a
      \<and> (\<forall>s. pollControlPipe_body env a \<noteq> Continue s))
   \<or> (8 \<le> declaredLength (pending a)
      \<and> declaredLength (pending a) \<le> length (pending a)
      \<and> pending (iteration_state (pollControlPipe_body env a))
          = drop (declaredLength (pending a)) (pending a))"
  by (auto simp: pollControlPipe_body_def Let_def read_def peek_def iteration_state_def
        declaredLength_def bytesAvailable_def readBufferSize_def setReadBufferSize_def
        pending_def [where a = a] pending_def [where a = "a\<lparr>m_controlPipe := p\<rparr>" for p]
           dest!: handlePacket_pending_cases
           split: if_splits prod.splits option.splits sum.splits stop.splits)

section \<open>The control pipe, closed\<close>

text \<open>
  C9. When the control pipe is closed at the start of \<^verbatim>\<open>pollControlPipe\<close>, the agent shuts
  down and returns at once: the state that results differs from the one before in the
  \<open>m_exiting\<close> flag only. The bytes of a partial frame stay in the queue of the pipe, no
  handler runs and no reply is written, whatever is buffered.
\<close>

theorem pollControlPipe_closed_shuts_down:
  "isClosed (m_controlPipe a) \<Longrightarrow> pollControlPipe env a = Inr (a\<lparr>m_exiting := True\<rparr>)"
  by (simp add: pollControlPipe_def shutdown_def)

text \<open>
  On the simulated platform: a closed control pipe that holds the first ten bytes of a
  frame of declared length twenty.
\<close>

theorem pollControlPipe_closed_shuts_down_witness:
  "isClosed ((sim_pipe ''control'')\<lparr>m_closed := True, m_inQueue := [20, 0, 0, 0, 0, 0, 0, 0, 1, 0]\<rparr>)
   \<and> pollControlPipe sim_platform
        (sim_agent\<lparr>m_controlPipe :=
           (sim_pipe ''control'')\<lparr>m_closed := True, m_inQueue := [20, 0, 0, 0, 0, 0, 0, 0, 1, 0]\<rparr>\<rparr>)
       = Inr (sim_agent\<lparr>m_controlPipe :=
                (sim_pipe ''control'')\<lparr>m_closed := True, m_inQueue := [20, 0, 0, 0, 0, 0, 0, 0, 1, 0]\<rparr>,
              m_exiting := True\<rparr>)"
  using pollControlPipe_closed_shuts_down
          [of "sim_agent\<lparr>m_controlPipe :=
                 (sim_pipe ''control'')\<lparr>m_closed := True, m_inQueue := [20, 0, 0, 0, 0, 0, 0, 0, 1, 0]\<rparr>\<rparr>"
              sim_platform]
  by (simp add: isClosed_def sim_pipe_def)

section \<open>Frames on the control pipe\<close>

lemma declaredLength_take:
  "8 \<le> n \<Longrightarrow> declaredLength (take n bs) = declaredLength bs"
  by (simp add: declaredLength_def min_def)

lemma pollControlPipe_body_frames:
  "\<exists>fs. pending a = concat fs @ pending (iteration_state (pollControlPipe_body env a))
        \<and> (\<forall>f\<in>set fs. 8 \<le> length f \<and> declaredLength f = length f)"
proof -
  let ?S = "declaredLength (pending a)"
  from pollControlPipe_body_pending [of env a]
  show ?thesis
  proof
    assume "pending (iteration_state (pollControlPipe_body env a)) = pending a
      \<and> (\<forall>s. pollControlPipe_body env a \<noteq> Continue s)"
    then have "pending a = concat [] @ pending (iteration_state (pollControlPipe_body env a))"
      by simp
    then show ?thesis by (intro exI [of _ "[]"]) simp
  next
    assume h: "8 \<le> ?S \<and> ?S \<le> length (pending a)
      \<and> pending (iteration_state (pollControlPipe_body env a)) = drop ?S (pending a)"
    then have "pending a = concat [take ?S (pending a)]
                 @ pending (iteration_state (pollControlPipe_body env a))"
      by simp
    moreover from h have "8 \<le> length (take ?S (pending a))
        \<and> declaredLength (take ?S (pending a)) = length (take ?S (pending a))"
      by (simp add: declaredLength_take)
    ultimately show ?thesis by (intro exI [of _ "[take ?S (pending a)]"]) simp
  qed
qed

lemma pollControlPipe_loop_frames:
  "\<exists>fs. pending a = concat fs @ pending (final_state (pollControlPipe_loop env a))
        \<and> (\<forall>f\<in>set fs. 8 \<le> length f \<and> declaredLength f = length f)"
proof (induction env a rule: pollControlPipe_loop.induct)
  case (1 env a)
  obtain fs0 where fs0:
    "pending a = concat fs0 @ pending (iteration_state (pollControlPipe_body env a))"
    "\<forall>f\<in>set fs0. 8 \<le> length f \<and> declaredLength f = length f"
    using pollControlPipe_body_frames [of a env] by blast
  show ?case
  proof (cases "pollControlPipe_body env a")
    case (Break a1)
    then have "final_state (pollControlPipe_loop env a) = a1"
      by (simp add: pollControlPipe_loop.simps [of env a] final_state_def)
    with fs0 Break show ?thesis
      by (intro exI [of _ fs0]) (simp add: iteration_state_def)
  next
    case (Abort msg s)
    then have "final_state (pollControlPipe_loop env a) = s"
      by (simp add: pollControlPipe_loop.simps [of env a] final_state_def stop_state_def)
    with fs0 Abort show ?thesis
      by (intro exI [of _ fs0]) (simp add: iteration_state_def)
  next
    case (Continue a1)
    from "1.IH" [OF Continue] obtain fs where fs:
      "pending a1 = concat fs @ pending (final_state (pollControlPipe_loop env a1))"
      "\<forall>f\<in>set fs. 8 \<le> length f \<and> declaredLength f = length f"
      by blast
    from Continue have "pollControlPipe_loop env a = pollControlPipe_loop env a1"
      by (simp add: pollControlPipe_loop.simps [of env a])
    with fs0 fs Continue show ?thesis
      by (intro exI [of _ "fs0 @ fs"]) (auto simp: iteration_state_def)
  qed
qed

lemma pollControlPipe_frames:
  "\<exists>fs. pending a = concat fs @ pending (final_state (pollControlPipe env a))
        \<and> (\<forall>f\<in>set fs. 8 \<le> length f \<and> declaredLength f = length f)"
proof (cases "isClosed (m_controlPipe a)")
  case True
  then have "pending (final_state (pollControlPipe env a)) = pending a"
    by (simp add: pollControlPipe_def shutdown_def final_state_def pending_def)
  then show ?thesis by (intro exI [of _ "[]"]) simp
next
  case False
  then show ?thesis
    using pollControlPipe_loop_frames [of a env] by (simp add: pollControlPipe_def)
qed

lemma getRawValue_uint64_header:
  "8 \<le> length bs \<Longrightarrow>
     getRawValue_uint64 \<lparr>rb_buf = bs, rb_off = 0\<rparr>
       = Some (le_value (take 8 bs), \<lparr>rb_buf = bs, rb_off = 8\<rparr>)"
  by (simp add: getRawValue_uint64_def getRawData_def)

lemma pollControlPipe_body_dispatch:
  assumes "8 \<le> declaredLength (pending a)" "declaredLength (pending a) \<le> SIZE_MAX env"
    and "declaredLength (pending a) \<le> length (pending a)"
  shows "pollControlPipe_body env a =
    (case handlePacket env \<lparr>rb_buf = take (declaredLength (pending a)) (pending a), rb_off = 8\<rparr>
            (a\<lparr>m_controlPipe :=
                 (m_controlPipe a)\<lparr>m_inQueue := drop (declaredLength (pending a)) (pending a)\<rparr>\<rparr>) of
       Inl (DecodeError s) \<Rightarrow> Abort ''false && Decode error'' s
     | Inl (Fatal msg s) \<Rightarrow> Abort msg s
     | Inr a2 \<Rightarrow> Continue a2)"
proof -
  define q where "q = m_inQueue (m_controlPipe a)"
  define S where "S = le_value (take 8 q)"
  have S: "8 \<le> S" "S \<le> SIZE_MAX env" "S \<le> length q"
    using assms by (simp_all add: S_def q_def declaredLength_def pending_def)
  have hdr: "length (peek 8 (m_controlPipe a)) = 8" "le_value (peek 8 (m_controlPipe a)) = S"
    using S by (simp_all add: peek_def q_def [symmetric] S_def)
  have avail: "bytesAvailable (m_controlPipe a) = length q"
    by (simp add: bytesAvailable_def q_def)
  have rd: "read S (m_controlPipe a) = (take S q, (m_controlPipe a)\<lparr>m_inQueue := drop S q\<rparr>)"
    by (simp add: read_def peek_def q_def)
  have len: "length (take S q) = S"
    using S by simp
  have raw: "getRawValue_uint64 \<lparr>rb_buf = take S q, rb_off = 0\<rparr>
               = Some (le_value (take 8 (take S q)), \<lparr>rb_buf = take S q, rb_off = 8\<rparr>)"
    using S by (intro getRawValue_uint64_header) simp
  have "pollControlPipe_body env a =
    (case handlePacket env \<lparr>rb_buf = take S q, rb_off = 8\<rparr>
            (a\<lparr>m_controlPipe := (m_controlPipe a)\<lparr>m_inQueue := drop S q\<rparr>\<rparr>) of
       Inl (DecodeError s) \<Rightarrow> Abort ''false && Decode error'' s
     | Inl (Fatal msg s) \<Rightarrow> Abort msg s
     | Inr a2 \<Rightarrow> Continue a2)"
    unfolding pollControlPipe_body_def Let_def hdr avail rd
    using S by (simp add: len raw)
  then show ?thesis
    by (simp add: S_def q_def declaredLength_def pending_def)
qed

lemma pollControlPipe_body_dispatch_pending:
  assumes "8 \<le> declaredLength (pending a)" "declaredLength (pending a) \<le> SIZE_MAX env"
    and "declaredLength (pending a) \<le> length (pending a)"
  shows "pending (iteration_state (pollControlPipe_body env a))
           = drop (declaredLength (pending a)) (pending a)"
proof -
  let ?a1 = "a\<lparr>m_controlPipe :=
                 (m_controlPipe a)\<lparr>m_inQueue := drop (declaredLength (pending a)) (pending a)\<rparr>\<rparr>"
  let ?p = "\<lparr>rb_buf = take (declaredLength (pending a)) (pending a), rb_off = 8\<rparr>"
  have "pending (iteration_state (pollControlPipe_body env a))
          = pending (final_state (handlePacket env ?p ?a1))"
    by (simp add: pollControlPipe_body_dispatch [OF assms] iteration_state_def final_state_def
          stop_state_def split: sum.splits stop.splits)
  also have "\<dots> = pending ?a1"
    by (rule handlePacket_pending)
  also have "\<dots> = drop (declaredLength (pending a)) (pending a)"
    by (simp add: pending_def)
  finally show ?thesis .
qed

lemma pollControlPipe_body_short_length:
  assumes "8 \<le> length (pending a)" "declaredLength (pending a) < 8"
  shows "pollControlPipe_body env a
           = Abort ''packetSize >= sizeof(packetSize) && packetSize <= SIZE_MAX'' a"
  using assms
  by (simp add: pollControlPipe_body_def Let_def peek_def declaredLength_def pending_def)

lemma le_value_bound: "le_value bs < 256 ^ length bs"
proof (induction bs)
  case Nil
  then show ?case by simp
next
  case (Cons b bs)
  have "unat b < 256" using unsigned_less [of b, where ?'a = nat] by simp
  with Cons show ?case by simp
qed

lemma declaredLength_bound: "declaredLength bs < 2 ^ 64"
proof -
  have "le_value (take 8 bs) < 256 ^ length (take 8 bs)" by (rule le_value_bound)
  also have "\<dots> \<le> (256 :: nat) ^ 8" by (intro power_increasing) simp_all
  finally show ?thesis by (simp add: declaredLength_def)
qed

text \<open>
  C3. A pass of the loop that processes a frame of declared length \<open>S\<close> (the value of its
  first eight bytes) takes exactly \<open>S\<close> bytes off the control pipe, the header among them:
  the handler is given those \<open>S\<close> bytes with the header skipped, and runs on the state whose
  queue is the old one without its first \<open>S\<close> bytes; neither the handler nor an abort
  changes the queue further. Over a whole call, what has left the queue is a sequence of
  frames, each as long as it declares.
\<close>

theorem pollControlPipe_consumes_declared_length:
  "(8 \<le> declaredLength (pending a) \<and> declaredLength (pending a) \<le> SIZE_MAX env
      \<and> declaredLength (pending a) \<le> length (pending a) \<longrightarrow>
        pollControlPipe_body env a =
          (case handlePacket env
                  \<lparr>rb_buf = take (declaredLength (pending a)) (pending a), rb_off = 8\<rparr>
                  (a\<lparr>m_controlPipe :=
                       (m_controlPipe a)\<lparr>m_inQueue := drop (declaredLength (pending a)) (pending a)\<rparr>\<rparr>) of
             Inl (DecodeError s) \<Rightarrow> Abort ''false && Decode error'' s
           | Inl (Fatal msg s) \<Rightarrow> Abort msg s
           | Inr a2 \<Rightarrow> Continue a2)
      \<and> pending (iteration_state (pollControlPipe_body env a))
          = drop (declaredLength (pending a)) (pending a))
   \<and> (\<forall>a'. pollControlPipe_body env a = Continue a' \<longrightarrow>
          declaredLength (pending a) \<le> length (pending a)
        \<and> pending a' = drop (declaredLength (pending a)) (pending a))
   \<and> (\<exists>fs. pending a = concat fs @ pending (final_state (pollControlPipe env a))
           \<and> (\<forall>f\<in>set fs. declaredLength f = length f))"
proof (intro conjI impI allI)
  assume h: "8 \<le> declaredLength (pending a) \<and> declaredLength (pending a) \<le> SIZE_MAX env
      \<and> declaredLength (pending a) \<le> length (pending a)"
  then show "pollControlPipe_body env a =
          (case handlePacket env
                  \<lparr>rb_buf = take (declaredLength (pending a)) (pending a), rb_off = 8\<rparr>
                  (a\<lparr>m_controlPipe :=
                       (m_controlPipe a)\<lparr>m_inQueue := drop (declaredLength (pending a)) (pending a)\<rparr>\<rparr>) of
             Inl (DecodeError s) \<Rightarrow> Abort ''false && Decode error'' s
           | Inl (Fatal msg s) \<Rightarrow> Abort msg s
           | Inr a2 \<Rightarrow> Continue a2)"
    by (intro pollControlPipe_body_dispatch) simp_all
  from h show "pending (iteration_state (pollControlPipe_body env a))
          = drop (declaredLength (pending a)) (pending a)"
    by (intro pollControlPipe_body_dispatch_pending) simp_all
next
  fix a' assume "pollControlPipe_body env a = Continue a'"
  with pollControlPipe_body_pending [of env a]
  show "declaredLength (pending a) \<le> length (pending a)"
    and "pending a' = drop (declaredLength (pending a)) (pending a)"
    by (auto simp: iteration_state_def)
next
  from pollControlPipe_frames [of a env]
  show "\<exists>fs. pending a = concat fs @ pending (final_state (pollControlPipe env a))
           \<and> (\<forall>f\<in>set fs. declaredLength f = length f)"
    by blast
qed

text \<open>A SetSize request of twenty bytes followed by three bytes of the next frame.\<close>

theorem pollControlPipe_consumes_declared_length_witness:
  "declaredLength (pending (sim_receiving (sim_SetSize_frame @ [9, 9, 9]))) = 20
   \<and> length (pending (sim_receiving (sim_SetSize_frame @ [9, 9, 9]))) = 23
   \<and> pending (iteration_state
        (pollControlPipe_body sim_platform (sim_receiving (sim_SetSize_frame @ [9, 9, 9]))))
      = [9, 9, 9]"
proof -
  let ?a = "sim_receiving (sim_SetSize_frame @ [9, 9, 9])"
  have q: "pending ?a = sim_SetSize_frame @ [9, 9, 9]"
    by (simp add: pending_def sim_receiving_def)
  have S: "declaredLength (pending ?a) = 20"
    unfolding q by (simp add: declaredLength_def sim_SetSize_frame_def)
  have len: "length (pending ?a) = 23"
    unfolding q by (simp add: sim_SetSize_frame_def)
  have "8 \<le> declaredLength (pending ?a) \<and> declaredLength (pending ?a) \<le> SIZE_MAX sim_platform
      \<and> declaredLength (pending ?a) \<le> length (pending ?a)"
    by (simp add: S len sim_platform_def)
  with pollControlPipe_consumes_declared_length [of ?a sim_platform]
  have "pending (iteration_state (pollControlPipe_body sim_platform ?a))
          = drop (declaredLength (pending ?a)) (pending ?a)"
    by blast
  also have "\<dots> = [9, 9, 9]"
    unfolding q by (simp add: declaredLength_def sim_SetSize_frame_def)
  finally show ?thesis
    using S len by simp
qed

text \<open>
  C4. When the length \<open>S\<close> can be peeked and fewer than \<open>S\<close> bytes are buffered, the call
  returns without dispatching: the state is the one before, but for the capacity of the
  receive buffer, which is the larger of the old capacity and \<open>S\<close>. The size test is reached
  when \<open>S\<close> passes the assertion before it, that is when \<open>S \<le> SIZE_MAX\<close>, which always
  holds where \<^verbatim>\<open>size_t\<close> has 64 bits; a larger \<open>S\<close> fails that assertion, and then too
  nothing is read or dispatched.
\<close>

theorem pollControlPipe_partial_frame_waits:
  assumes "\<not> isClosed (m_controlPipe a)"
    and "8 \<le> length (pending a)"
    and "length (pending a) < declaredLength (pending a)"
  shows "(declaredLength (pending a) \<le> SIZE_MAX env \<longrightarrow>
            pollControlPipe env a =
              Inr (a\<lparr>m_controlPipe :=
                      (m_controlPipe a)\<lparr>m_readBufferSize :=
                         max (m_readBufferSize (m_controlPipe a)) (declaredLength (pending a))\<rparr>\<rparr>))
       \<and> (SIZE_MAX env < declaredLength (pending a) \<longrightarrow>
            pollControlPipe env a =
              Inl (Fatal ''packetSize >= sizeof(packetSize) && packetSize <= SIZE_MAX'' a))
       \<and> (2 ^ 64 - 1 \<le> SIZE_MAX env \<longrightarrow> declaredLength (pending a) \<le> SIZE_MAX env)
       \<and> pending (final_state (pollControlPipe env a)) = pending a"
proof -
  let ?S = "declaredLength (pending a)"
  have big: "8 \<le> ?S" using assms by simp
  have body: "pollControlPipe_body env a =
     (if ?S \<le> SIZE_MAX env
      then Break (a\<lparr>m_controlPipe :=
                      (m_controlPipe a)\<lparr>m_readBufferSize :=
                         max (m_readBufferSize (m_controlPipe a)) ?S\<rparr>\<rparr>)
      else Abort ''packetSize >= sizeof(packetSize) && packetSize <= SIZE_MAX'' a)"
    using assms big
    by (simp add: pollControlPipe_body_def Let_def peek_def declaredLength_def pending_def
          bytesAvailable_def readBufferSize_def setReadBufferSize_def max_def)
  have poll: "pollControlPipe env a =
     (if ?S \<le> SIZE_MAX env
      then Inr (a\<lparr>m_controlPipe :=
                      (m_controlPipe a)\<lparr>m_readBufferSize :=
                         max (m_readBufferSize (m_controlPipe a)) ?S\<rparr>\<rparr>)
      else Inl (Fatal ''packetSize >= sizeof(packetSize) && packetSize <= SIZE_MAX'' a))"
    using assms(1) by (simp add: pollControlPipe_def pollControlPipe_loop.simps [of env a] body)
  have bound: "?S < 2 ^ 64" by (rule declaredLength_bound)
  show ?thesis
    using bound by (simp add: poll final_state_def stop_state_def pending_def)
qed

text \<open>The first twelve bytes of the SetSize request, with a receive buffer of sixteen bytes.\<close>

theorem pollControlPipe_partial_frame_waits_witness:
  "\<not> isClosed (m_controlPipe (sim_receiving (take 12 sim_SetSize_frame)))
   \<and> length (pending (sim_receiving (take 12 sim_SetSize_frame))) = 12
   \<and> declaredLength (pending (sim_receiving (take 12 sim_SetSize_frame))) = 20
   \<and> pollControlPipe sim_platform
        ((sim_receiving (take 12 sim_SetSize_frame))
           \<lparr>m_controlPipe := (m_controlPipe (sim_receiving (take 12 sim_SetSize_frame)))
                                 \<lparr>m_readBufferSize := 16\<rparr>\<rparr>)
       = Inr ((sim_receiving (take 12 sim_SetSize_frame))
           \<lparr>m_controlPipe := (m_controlPipe (sim_receiving (take 12 sim_SetSize_frame)))
                                 \<lparr>m_readBufferSize := 20\<rparr>\<rparr>)"
proof -
  let ?a = "(sim_receiving (take 12 sim_SetSize_frame))
           \<lparr>m_controlPipe := (m_controlPipe (sim_receiving (take 12 sim_SetSize_frame)))
                                 \<lparr>m_readBufferSize := 16\<rparr>\<rparr>"
  have q: "pending ?a = take 12 sim_SetSize_frame"
       "pending (sim_receiving (take 12 sim_SetSize_frame)) = take 12 sim_SetSize_frame"
    by (simp_all add: pending_def sim_receiving_def)
  have S: "declaredLength (take 12 sim_SetSize_frame) = 20"
    and len: "length (take 12 sim_SetSize_frame) = 12"
    by (simp_all add: declaredLength_def sim_SetSize_frame_def)
  have open_pipe: "\<not> isClosed (m_controlPipe ?a)"
       "\<not> isClosed (m_controlPipe (sim_receiving (take 12 sim_SetSize_frame)))"
    by (simp_all add: isClosed_def sim_receiving_def sim_pipe_def)
  have "declaredLength (pending ?a) \<le> SIZE_MAX sim_platform"
    unfolding q S by (simp add: sim_platform_def)
  with pollControlPipe_partial_frame_waits [of ?a sim_platform] open_pipe
  have "pollControlPipe sim_platform ?a =
          Inr (?a\<lparr>m_controlPipe :=
                  (m_controlPipe ?a)\<lparr>m_readBufferSize :=
                     max (m_readBufferSize (m_controlPipe ?a)) (declaredLength (pending ?a))\<rparr>\<rparr>)"
    unfolding q S len by simp
  then show ?thesis
    unfolding q S len using open_pipe by simp
qed

text \<open>
  C10. When eight bytes can be peeked and the length they declare is below eight, the
  assertion on the packet size fails in that pass, and the state at the abort is the state
  at the start of the pass: no byte of the frame has been read. Hence a pass that takes
  bytes off the queue has a declared length of at least eight, and so has every frame a
  call has read.
\<close>

theorem pollControlPipe_length_below_header_asserts:
  "(8 \<le> length (pending a) \<and> declaredLength (pending a) < 8 \<longrightarrow>
        pollControlPipe_loop env a
          = Inl (Fatal ''packetSize >= sizeof(packetSize) && packetSize <= SIZE_MAX'' a)
      \<and> (\<not> isClosed (m_controlPipe a) \<longrightarrow>
            pollControlPipe env a
              = Inl (Fatal ''packetSize >= sizeof(packetSize) && packetSize <= SIZE_MAX'' a)))
   \<and> (pending (iteration_state (pollControlPipe_body env a)) \<noteq> pending a \<longrightarrow>
          8 \<le> declaredLength (pending a))
   \<and> (\<exists>fs. pending a = concat fs @ pending (final_state (pollControlPipe env a))
           \<and> (\<forall>f\<in>set fs. 8 \<le> declaredLength f))"
proof (intro conjI impI)
  assume h: "8 \<le> length (pending a) \<and> declaredLength (pending a) < 8"
  then have "pollControlPipe_body env a
           = Abort ''packetSize >= sizeof(packetSize) && packetSize <= SIZE_MAX'' a"
    by (intro pollControlPipe_body_short_length) simp_all
  then show loop: "pollControlPipe_loop env a
          = Inl (Fatal ''packetSize >= sizeof(packetSize) && packetSize <= SIZE_MAX'' a)"
    by (simp add: pollControlPipe_loop.simps [of env a])
  assume "\<not> isClosed (m_controlPipe a)"
  with loop show "pollControlPipe env a
          = Inl (Fatal ''packetSize >= sizeof(packetSize) && packetSize <= SIZE_MAX'' a)"
    by (simp add: pollControlPipe_def)
next
  assume "pending (iteration_state (pollControlPipe_body env a)) \<noteq> pending a"
  with pollControlPipe_body_pending [of env a]
  show "8 \<le> declaredLength (pending a)"
    by blast
next
  from pollControlPipe_frames [of a env]
  show "\<exists>fs. pending a = concat fs @ pending (final_state (pollControlPipe env a))
           \<and> (\<forall>f\<in>set fs. 8 \<le> declaredLength f)"
    by fastforce
qed

text \<open>Nine bytes buffered, declaring a length of seven.\<close>

theorem pollControlPipe_length_below_header_asserts_witness:
  "length (pending (sim_receiving [7, 0, 0, 0, 0, 0, 0, 0, 1])) = 9
   \<and> declaredLength (pending (sim_receiving [7, 0, 0, 0, 0, 0, 0, 0, 1])) = 7
   \<and> pollControlPipe sim_platform (sim_receiving [7, 0, 0, 0, 0, 0, 0, 0, 1])
       = Inl (Fatal ''packetSize >= sizeof(packetSize) && packetSize <= SIZE_MAX''
               (sim_receiving [7, 0, 0, 0, 0, 0, 0, 0, 1]))"
proof -
  let ?a = "sim_receiving [7, 0, 0, 0, 0, 0, 0, 0, 1]"
  have q: "pending ?a = [7, 0, 0, 0, 0, 0, 0, 0, 1]"
    by (simp add: pending_def sim_receiving_def)
  have S: "declaredLength (pending ?a) = 7" and len: "length (pending ?a) = 9"
    unfolding q by (simp_all add: declaredLength_def)
  have open_pipe: "\<not> isClosed (m_controlPipe ?a)"
    by (simp add: isClosed_def sim_receiving_def sim_pipe_def)
  have "8 \<le> length (pending ?a) \<and> declaredLength (pending ?a) < 8"
    by (simp add: S len)
  with pollControlPipe_length_below_header_asserts [of ?a sim_platform] open_pipe
  have "pollControlPipe sim_platform ?a
       = Inl (Fatal ''packetSize >= sizeof(packetSize) && packetSize <= SIZE_MAX'' ?a)"
    by blast
  with S len show ?thesis by simp
qed

section \<open>A second spawn\<close>

text \<open>
  C5. A StartProcess request that arrives while a child process is tracked, or once the
  output pipes are closing, fails an assertion: the first when a child is tracked, the
  second otherwise. The outcome is the same for every packet, decodable or not, so no field
  has been parsed; the state at the abort is the state at entry, and the handler never
  returns, so the tracked process is not replaced.
\<close>

theorem handleStartProcessPacket_second_spawn_asserts:
  assumes "m_childProcess a \<noteq> None \<or> m_closingOutputPipes a"
  shows "handleStartProcessPacket env packet a =
           Inl (Fatal (if m_childProcess a \<noteq> None then ''m_childProcess == nullptr''
                       else ''!m_closingOutputPipes'') a)
       \<and> (\<forall>a'. handleStartProcessPacket env packet a \<noteq> Inr a')
       \<and> m_childProcess (final_state (handleStartProcessPacket env packet a)) = m_childProcess a"
  using assms
  by (auto simp: handleStartProcessPacket_def final_state_def stop_state_def)

text \<open>An undecodable packet, with a child tracked, and with the output pipes closing.\<close>

theorem handleStartProcessPacket_second_spawn_asserts_witness:
  "m_childProcess (sim_agent\<lparr>m_childProcess := Some 100\<rparr>) = Some 100
   \<and> handleStartProcessPacket sim_platform \<lparr>rb_buf = [], rb_off = 0\<rparr>
        (sim_agent\<lparr>m_childProcess := Some 100\<rparr>)
       = Inl (Fatal ''m_childProcess == nullptr'' (sim_agent\<lparr>m_childProcess := Some 100\<rparr>))
   \<and> m_closingOutputPipes (sim_agent\<lparr>m_closingOutputPipes := True\<rparr>)
   \<and> handleStartProcessPacket sim_platform \<lparr>rb_buf = [], rb_off = 0\<rparr>
        (sim_agent\<lparr>m_closingOutputPipes := True\<rparr>)
       = Inl (Fatal ''!m_closingOutputPipes'' (sim_agent\<lparr>m_closingOutputPipes := True\<rparr>))"
  using handleStartProcessPacket_second_spawn_asserts
          [of "sim_agent\<lparr>m_childProcess := Some 100\<rparr>" sim_platform "\<lparr>rb_buf = [], rb_off = 0\<rparr>"]
        handleStartProcessPacket_second_spawn_asserts
          [of "sim_agent\<lparr>m_closingOutputPipes := True\<rparr>" sim_platform "\<lparr>rb_buf = [], rb_off = 0\<rparr>"]
  by (simp add: sim_agent_def)

section \<open>Resizing\<close>

lemma le_bytes_numeral:
  "le_bytes (numeral k) v = of_nat (v mod 256) # le_bytes (pred_numeral k) (v div 256)"
  unfolding numeral_eq_Suc [of k] by (rule le_bytes.simps)

lemma newPacket_bytes: "newPacket = [0, 0, 0, 0, 0, 0, 0, 0]"
  by (simp add: newPacket_def putRawValue_uint64_def le_bytes_numeral)

lemma writePacket_newPacket:
  "writePacket newPacket a = a\<lparr>m_controlPipe := write_pipe [8, 0, 0, 0, 0, 0, 0, 0] (m_controlPipe a)\<rparr>"
  by (simp add: writePacket_def newPacket_bytes replaceRawValue_uint64_def le_bytes_numeral)

lemma readSetSizeFields_zero_cols:
  "readSetSizeFields \<lparr>rb_buf = [20, 0, 0, 0, 0, 0, 0, 0, 1, 0, 0, 0, 0, 0, 0, 0, 24, 0, 0, 0], rb_off = 12\<rparr>
     = Some (0, 24)"
  by (simp add: readSetSizeFields_def getInt32_def getRawData_def eof_def)

text \<open>
  C6. A SetSize request whose columns or rows are out of bounds changes nothing but the
  control pipe, to which the reply is written: the screen buffers, the scrapers, the mouse
  rectangle of the console input and the calls made are as before. The reply is the empty
  packet, eight bytes that hold the length eight. Every SetSize request that decodes, in
  bounds or not, returns with exactly that packet appended to what the control pipe has to
  send.
\<close>

theorem handleSetSizePacket_replies_once:
  assumes "readSetSizeFields packet = Some (cols, rows)"
  shows "(cols < 1 \<or> cols > MAX_CONSOLE_WIDTH env \<or> rows < 1 \<or> rows > BUFFER_LINE_COUNT env - 1 \<longrightarrow>
            handleSetSizePacket env packet a =
              Inr (a\<lparr>m_controlPipe := write_pipe [8, 0, 0, 0, 0, 0, 0, 0] (m_controlPipe a)\<rparr>))
       \<and> (\<exists>a'. handleSetSizePacket env packet a = Inr a'
              \<and> m_outQueue (m_controlPipe a') = m_outQueue (m_controlPipe a) @ [8, 0, 0, 0, 0, 0, 0, 0])"
proof (intro conjI impI)
  assume "cols < 1 \<or> cols > MAX_CONSOLE_WIDTH env \<or> rows < 1 \<or> rows > BUFFER_LINE_COUNT env - 1"
  then have "resizeWindow env cols rows a = a"
    by (simp add: resizeWindow_def)
  with assms show "handleSetSizePacket env packet a =
              Inr (a\<lparr>m_controlPipe := write_pipe [8, 0, 0, 0, 0, 0, 0, 0] (m_controlPipe a)\<rparr>)"
    by (simp add: handleSetSizePacket_def writePacket_newPacket)
next
  from assms have "handleSetSizePacket env packet a
      = Inr (writePacket newPacket (resizeWindow env cols rows a))"
    by (simp add: handleSetSizePacket_def)
  moreover have "m_outQueue (m_controlPipe (writePacket newPacket (resizeWindow env cols rows a)))
      = m_outQueue (m_controlPipe a) @ [8, 0, 0, 0, 0, 0, 0, 0]"
    by (simp add: writePacket_newPacket resizeWindow_controlPipe write_pipe_def)
  ultimately show "\<exists>a'. handleSetSizePacket env packet a = Inr a'
              \<and> m_outQueue (m_controlPipe a') = m_outQueue (m_controlPipe a) @ [8, 0, 0, 0, 0, 0, 0, 0]"
    by simp
qed

text \<open>The request of the spec: zero columns, twenty-four rows.\<close>

theorem handleSetSizePacket_replies_once_witness:
  "readSetSizeFields \<lparr>rb_buf = [20, 0, 0, 0, 0, 0, 0, 0, 1, 0, 0, 0, 0, 0, 0, 0, 24, 0, 0, 0], rb_off = 12\<rparr>
     = Some (0, 24)
   \<and> handleSetSizePacket sim_platform
        \<lparr>rb_buf = [20, 0, 0, 0, 0, 0, 0, 0, 1, 0, 0, 0, 0, 0, 0, 0, 24, 0, 0, 0], rb_off = 12\<rparr> sim_agent
       = Inr (sim_agent\<lparr>m_controlPipe :=
                (sim_pipe ''control'')\<lparr>m_outQueue := [8, 0, 0, 0, 0, 0, 0, 0]\<rparr>\<rparr>)"
proof -
  have "(0 :: int) < 1 \<or> 0 > MAX_CONSOLE_WIDTH sim_platform \<or> (24 :: int) < 1
      \<or> 24 > BUFFER_LINE_COUNT sim_platform - 1"
    by simp
  with handleSetSizePacket_replies_once [OF readSetSizeFields_zero_cols, of sim_platform sim_agent]
  have "handleSetSizePacket sim_platform
        \<lparr>rb_buf = [20, 0, 0, 0, 0, 0, 0, 0, 1, 0, 0, 0, 0, 0, 0, 0, 24, 0, 0, 0], rb_off = 12\<rparr> sim_agent
       = Inr (sim_agent\<lparr>m_controlPipe := write_pipe [8, 0, 0, 0, 0, 0, 0, 0] (m_controlPipe sim_agent)\<rparr>)"
    by blast
  then show ?thesis
    by (simp add: readSetSizeFields_zero_cols write_pipe_def sim_agent_def sim_pipe_def)
qed

section \<open>Spawning before the pipes are connected\<close>

lemma connectingPipeList_join:
  assumes "\<forall>p\<in>set (dataPipes a). isConnecting p \<longrightarrow> name p \<noteq> []"
  shows "connectingPipeList a = joinNames (map name (filter isConnecting (dataPipes a)))"
  using assms
  by (auto simp: connectingPipeList_def appendPipeName_def dataPipes_def split: option.splits)

lemma joinNames_nonempty:
  "ns \<noteq> [] \<Longrightarrow> \<forall>n\<in>set ns. n \<noteq> [] \<Longrightarrow> joinNames ns \<noteq> []"
  by (induction ns rule: joinNames.induct) auto

lemma length_le_bytes: "length (le_bytes n v) = n"
  by (induction n arbitrary: v) simp_all

lemma length_bytes_of_wchars: "length (bytes_of_wchars s) = 2 * length s"
  by (induction s) (simp_all add: bytes_of_wchars_def length_le_bytes)

lemma writePacket_reply:
  "writePacket (newPacket @ body) a
     = a\<lparr>m_controlPipe := write_pipe (le_bytes 8 (8 + length body) @ body) (m_controlPipe a)\<rparr>"
proof -
  have len: "length newPacket = 8"
    by (simp add: newPacket_def putRawValue_uint64_def length_le_bytes)
  then have "drop 8 (newPacket @ body) = body"
    by simp
  then show ?thesis
    by (simp add: writePacket_def replaceRawValue_uint64_def len)
qed

lemma readStartProcessFields_sim:
  "readStartProcessFields \<lparr>rb_buf = sim_StartProcess_body, rb_off = 0\<rparr>
     = Some \<lparr>spawnFlags = 1, wantProcessHandle = False, wantThreadHandle = False,
             program = [], cmdline = [0x63, 0x6D, 0x64], cwd = [], environ = [], desktop = []\<rparr>"
  by (simp add: readStartProcessFields_def sim_StartProcess_body_def getInt64_def getInt32_def
        getWString_def getRawValue_uint64_def getRawData_def eof_def)

lemma createDataServerPipe_connecting:
  "isConnecting (createDataServerPipe writing kind uniqueName fresh)
   \<and> name (createDataServerPipe writing kind uniqueName fresh) \<noteq> []"
  by (simp add: createDataServerPipe_def openServerPipe_def setReadBufferSize_def
        isConnecting_def name_def Let_def)

text \<open>
  C1. A StartProcess request that decodes, handled with no child tracked and the output
  pipes not closing, while a data pipe is still connecting: the handler returns the state
  it was given but for the control pipe, to which it has written one reply. The reply holds
  the PipesStillOpen code and, as a wide string, the names of exactly the pipes still
  connecting, in the order input, primary output, secondary output, joined with a comma and
  a space. \<^verbatim>\<open>CreateProcessW\<close> is not called and the child process record is as before.
  The names are not empty, as those that \<^verbatim>\<open>createDataServerPipe\<close> gives never are.
\<close>

theorem handleStartProcessPacket_pipes_still_open:
  assumes "m_childProcess a = None" and "\<not> m_closingOutputPipes a"
    and "readStartProcessFields packet = Some req"
    and "\<forall>p\<in>set (dataPipes a). isConnecting p \<longrightarrow> name p \<noteq> []"
    and "\<exists>p\<in>set (dataPipes a). isConnecting p"
  defines "names \<equiv> joinNames (map name (filter isConnecting (dataPipes a)))"
  shows "handleStartProcessPacket env packet a =
           Inr (a\<lparr>m_controlPipe :=
                   write_pipe
                     (le_bytes 8 (20 + 2 * length names) @ le_bytes 4 (unat (PipesStillOpen env))
                        @ le_bytes 8 (length names) @ bytes_of_wchars names)
                     (m_controlPipe a)\<rparr>)"
proof -
  have list: "connectingPipeList a = names"
    unfolding names_def using assms(4) by (rule connectingPipeList_join)
  have "map name (filter isConnecting (dataPipes a)) \<noteq> []"
    using assms(5) by (simp add: filter_empty_conv)
  moreover have "\<forall>n\<in>set (map name (filter isConnecting (dataPipes a))). n \<noteq> []"
    using assms(4) by auto
  ultimately have nonempty: "names \<noteq> []"
    unfolding names_def by (rule joinNames_nonempty)
  have reply: "putWString names (putInt32 (PipesStillOpen env) newPacket)
      = newPacket @ (le_bytes 4 (unat (PipesStillOpen env)) @ le_bytes 8 (length names)
          @ bytes_of_wchars names)"
    by (simp add: putWString_def putInt32_def)
  have "handleStartProcessPacket env packet a
      = Inr (writePacket (putWString names (putInt32 (PipesStillOpen env) newPacket)) a)"
    using assms(1-3) nonempty by (simp add: handleStartProcessPacket_def list)
  then show ?thesis
    unfolding reply writePacket_reply
    by (simp add: length_le_bytes length_bytes_of_wchars)
qed

text \<open>The input pipe connected, the primary output pipe and the error pipe still connecting.\<close>

theorem handleStartProcessPacket_pipes_still_open_witness:
  "m_childProcess sim_connecting = None
   \<and> \<not> m_closingOutputPipes sim_connecting
   \<and> map isConnecting (dataPipes sim_connecting) = [False, True, True]
   \<and> map name (filter isConnecting (dataPipes sim_connecting)) = [wide ''conout'', wide ''conerr'']
   \<and> handleStartProcessPacket sim_platform \<lparr>rb_buf = sim_StartProcess_body, rb_off = 0\<rparr>
         sim_connecting
       = Inr (sim_connecting
               \<lparr>m_controlPipe :=
                  write_pipe
                    (le_bytes 8 48 @ le_bytes 4 2 @ le_bytes 8 14
                       @ bytes_of_wchars (wide ''conout, conerr''))
                    (m_controlPipe sim_connecting)\<rparr>)"
proof -
  have pipes: "dataPipes sim_connecting =
      [sim_pipe ''conin'', (sim_pipe ''conout'')\<lparr>m_connecting := True\<rparr>,
       (sim_pipe ''conerr'')\<lparr>m_connecting := True\<rparr>]"
    by (simp add: dataPipes_def sim_connecting_def sim_agent_def)
  have flags: "map isConnecting (dataPipes sim_connecting) = [False, True, True]"
    by (simp add: pipes isConnecting_def sim_pipe_def)
  have names: "map name (filter isConnecting (dataPipes sim_connecting))
      = [wide ''conout'', wide ''conerr'']"
    by (simp add: pipes isConnecting_def name_def sim_pipe_def)
  have joined: "joinNames [wide ''conout'', wide ''conerr''] = wide ''conout, conerr''"
    by (simp add: wide_def)
  have len: "length (wide ''conout, conerr'') = 14"
    by (simp add: wide_def)
  have code: "unat (PipesStillOpen sim_platform) = 2"
    by (simp add: sim_platform_def)
  have state: "m_childProcess sim_connecting = None" "\<not> m_closingOutputPipes sim_connecting"
    by (simp_all add: sim_connecting_def sim_agent_def)
  have named: "\<forall>p\<in>set (dataPipes sim_connecting). isConnecting p \<longrightarrow> name p \<noteq> []"
    by (simp add: pipes name_def sim_pipe_def wide_def)
  have some: "\<exists>p\<in>set (dataPipes sim_connecting). isConnecting p"
    by (simp add: pipes isConnecting_def sim_pipe_def)
  from handleStartProcessPacket_pipes_still_open
         [OF state readStartProcessFields_sim named some, of sim_platform]
  show ?thesis
    unfolding names joined len code using state flags names by simp
qed

section \<open>Freeze calibration\<close>

text \<open>
  C7. On a console that is not frozen, the calibration returns with the cursor at the probe
  position, the console unfrozen, and MARK selected exactly when a freeze with MARK leaves
  the reported probe position unchanged; otherwise SELECT_ALL is selected, in particular
  when MARK moves the probe and SELECT_ALL does not. Every later freeze uses the selected
  command, and whenever one of the two commands leaves the probe unchanged the selected one
  does.
\<close>

theorem initConsoleFreezeMethod_selects:
  assumes "\<not> frozen console"
  shows "\<exists>console' buffer'.
           initConsoleFreezeMethod env console buffer = Inr (console', buffer')
         \<and> cb_cursor buffer' = probe
         \<and> \<not> frozen console'
         \<and> m_freezeUsesMark console' = (freezeCursor env MARK probe = probe)
         \<and> selectedCommand console'
             = (if freezeCursor env MARK probe = probe then MARK else SELECT_ALL)
         \<and> con_selection (setFrozen True console') = Some (selectedCommand console')
         \<and> (freezeCursor env MARK probe = probe \<or> freezeCursor env SELECT_ALL probe = probe
              \<longrightarrow> freezeCursor env (selectedCommand console') probe = probe)"
  using assms
  by (simp add: initConsoleFreezeMethod_def Let_def frozen_def setFreezeUsesMark_def setFrozen_def
        cursorPosition_def setCursorPosition_def moveWindow_def resizeBuffer_def bufferInfo_def
        probe_def selectedCommand_def)

text \<open>The legacy console: MARK moves the probe, SELECT_ALL does not, SELECT_ALL is selected.\<close>

theorem initConsoleFreezeMethod_selects_witness:
  "\<not> frozen sim_console
   \<and> freezeCursor sim_platform MARK probe \<noteq> probe
   \<and> freezeCursor sim_platform SELECT_ALL probe = probe
   \<and> map_sum (\<lambda>s. ()) (\<lambda>(c, b). (m_freezeUsesMark c, selectedCommand c, cb_cursor b))
         (initConsoleFreezeMethod sim_platform sim_console sim_buffer)
       = Inr (False, SELECT_ALL, probe)"
  using initConsoleFreezeMethod_selects [of sim_console sim_platform sim_buffer]
  by (auto simp: frozen_def sim_console_def sim_platform_def probe_def)

section \<open>The title\<close>

lemma titleBytes_nonempty: "titleBytes env t \<noteq> []"
  by (simp add: titleBytes_def titleCommand_def)

lemma titleBytes_complete:
  "0 \<notin> set (utf8FromWide env t) \<Longrightarrow>
     titleBytes env t = [0x1B, 0x5D, 0x30, 0x3B] @ utf8FromWide env t @ [0x07]"
proof -
  assume "0 \<notin> set (utf8FromWide env t)"
  then have "\<forall>b\<in>set (titleCommand env t). b \<noteq> 0"
    by (auto simp: titleCommand_def)
  then show ?thesis
    by (simp add: titleBytes_def titleCommand_def takeWhile_eq_all_conv [THEN iffD2])
qed

lemma syncConsoleTitle_cases:
  "syncConsoleTitle env a =
     (if title (m_console a) = m_currentTitle a then a
      else a\<lparr>m_conoutPipe := write_pipe (titleBytes env (title (m_console a))) (m_conoutPipe a),
             m_currentTitle := title (m_console a)\<rparr>)"
  by (simp add: syncConsoleTitle_def Let_def write_cstr_def titleBytes_def)

lemma hd_remdups_adj_Cons: "remdups_adj (x # xs) = x # tl (remdups_adj (x # xs))"
  by (cases xs) simp_all

lemma titlePasses_written:
  "conout (titlePasses env ts a)
     = conout a @ concat (map (titleBytes env) (tl (remdups_adj (m_currentTitle a # ts))))
   \<and> m_currentTitle (titlePasses env ts a) = last (remdups_adj (m_currentTitle a # ts))"
proof (induction ts arbitrary: a)
  case Nil
  then show ?case by simp
next
  case (Cons t ts)
  let ?a0 = "a\<lparr>m_console := (m_console a)\<lparr>con_title := t\<rparr>\<rparr>"
  let ?a1 = "syncConsoleTitle env ?a0"
  show ?case
  proof (cases "t = m_currentTitle a")
    case True
    then have "conout ?a1 = conout a" "m_currentTitle ?a1 = m_currentTitle a"
      by (simp_all add: syncConsoleTitle_cases title_def conout_def)
    with Cons [of ?a1] True show ?thesis by simp
  next
    case False
    then have a1: "conout ?a1 = conout a @ titleBytes env t" "m_currentTitle ?a1 = t"
      by (simp_all add: syncConsoleTitle_cases title_def conout_def write_pipe_def)
    have "remdups_adj (t # ts) = t # tl (remdups_adj (t # ts))"
      by (rule hd_remdups_adj_Cons)
    then have "concat (map (titleBytes env) (remdups_adj (t # ts)))
        = titleBytes env t @ concat (map (titleBytes env) (tl (remdups_adj (t # ts))))"
      by (metis concat.simps(2) list.simps(9))
    with Cons [of ?a1] a1 False show ?thesis by simp
  qed
qed

text \<open>
  C8. A title-sync pass writes to the primary output pipe if and only if the title of the
  console differs from the cached one; it then writes the title command (the escape
  sequence, whole when the UTF-8 of the title has no NUL byte) and caches that title, and
  otherwise changes nothing. A second pass with the same title writes nothing. Over any run
  of passes the pipe receives one command for each change of title, and the cache is the
  last title written (the initial cache when none was).
\<close>

theorem syncConsoleTitle_writes_on_change:
  "(conout (syncConsoleTitle env a) \<noteq> conout a \<longleftrightarrow> title (m_console a) \<noteq> m_currentTitle a)
   \<and> (title (m_console a) \<noteq> m_currentTitle a \<longrightarrow>
         syncConsoleTitle env a =
           a\<lparr>m_conoutPipe := write_pipe (titleBytes env (title (m_console a))) (m_conoutPipe a),
             m_currentTitle := title (m_console a)\<rparr>)
   \<and> (title (m_console a) = m_currentTitle a \<longrightarrow> syncConsoleTitle env a = a)
   \<and> (0 \<notin> set (utf8FromWide env t) \<longrightarrow>
         titleBytes env t = [0x1B, 0x5D, 0x30, 0x3B] @ utf8FromWide env t @ [0x07])
   \<and> syncConsoleTitle env (syncConsoleTitle env a) = syncConsoleTitle env a
   \<and> conout (titlePasses env ts a)
       = conout a @ concat (map (titleBytes env) (tl (remdups_adj (m_currentTitle a # ts))))
   \<and> m_currentTitle (titlePasses env ts a) = last (remdups_adj (m_currentTitle a # ts))"
proof (intro conjI impI)
  show "conout (syncConsoleTitle env a) \<noteq> conout a \<longleftrightarrow> title (m_console a) \<noteq> m_currentTitle a"
    by (simp add: syncConsoleTitle_cases conout_def write_pipe_def titleBytes_nonempty)
  show "syncConsoleTitle env (syncConsoleTitle env a) = syncConsoleTitle env a"
    by (simp add: syncConsoleTitle_cases)
  show "conout (titlePasses env ts a)
       = conout a @ concat (map (titleBytes env) (tl (remdups_adj (m_currentTitle a # ts))))"
    and "m_currentTitle (titlePasses env ts a) = last (remdups_adj (m_currentTitle a # ts))"
    using titlePasses_written [of env ts a] by simp_all
next
  assume "title (m_console a) \<noteq> m_currentTitle a"
  then show "syncConsoleTitle env a =
           a\<lparr>m_conoutPipe := write_pipe (titleBytes env (title (m_console a))) (m_conoutPipe a),
             m_currentTitle := title (m_console a)\<rparr>"
    by (simp add: syncConsoleTitle_cases)
next
  assume "title (m_console a) = m_currentTitle a"
  then show "syncConsoleTitle env a = a"
    by (simp add: syncConsoleTitle_cases)
next
  assume "0 \<notin> set (utf8FromWide env t)"
  then show "titleBytes env t = [0x1B, 0x5D, 0x30, 0x3B] @ utf8FromWide env t @ [0x07]"
    by (rule titleBytes_complete)
qed

text \<open>The title \<^verbatim>\<open>ab\<close> with an empty cache; then the titles \<^verbatim>\<open>ab\<close>, \<^verbatim>\<open>ab\<close>, \<^verbatim>\<open>c\<close> in turn.\<close>

theorem syncConsoleTitle_writes_on_change_witness:
  "title (m_console (sim_agent\<lparr>m_console := sim_console\<lparr>con_title := wide ''ab''\<rparr>\<rparr>)) = wide ''ab''
   \<and> m_currentTitle (sim_agent\<lparr>m_console := sim_console\<lparr>con_title := wide ''ab''\<rparr>\<rparr>) = []
   \<and> syncConsoleTitle sim_platform (sim_agent\<lparr>m_console := sim_console\<lparr>con_title := wide ''ab''\<rparr>\<rparr>)
       = sim_agent\<lparr>m_console := sim_console\<lparr>con_title := wide ''ab''\<rparr>,
                   m_conoutPipe := (sim_pipe ''conout'')
                      \<lparr>m_outQueue := [0x1B, 0x5D, 0x30, 0x3B, 0x61, 0x62, 0x07]\<rparr>,
                   m_currentTitle := wide ''ab''\<rparr>
   \<and> conout (titlePasses sim_platform [wide ''ab'', wide ''ab'', wide ''c''] sim_agent)
       = [0x1B, 0x5D, 0x30, 0x3B, 0x61, 0x62, 0x07] @ [0x1B, 0x5D, 0x30, 0x3B, 0x63, 0x07]"
proof -
  let ?a = "sim_agent\<lparr>m_console := sim_console\<lparr>con_title := wide ''ab''\<rparr>\<rparr>"
  have utf8: "utf8FromWide sim_platform (wide ''ab'') = [0x61, 0x62]"
      "utf8FromWide sim_platform (wide ''c'') = [0x63]"
    by (simp_all add: sim_platform_def wide_def)
  have t: "title (m_console ?a) = wide ''ab''" "m_currentTitle ?a = []" "m_currentTitle sim_agent = []"
    by (simp_all add: title_def sim_agent_def)
  have ne: "wide ''ab'' \<noteq> []" "wide ''ab'' \<noteq> wide ''c''"
    by (simp_all add: wide_def)
  note change = syncConsoleTitle_writes_on_change
  have b1: "titleBytes sim_platform (wide ''ab'') = [0x1B, 0x5D, 0x30, 0x3B, 0x61, 0x62, 0x07]"
    using change [of sim_platform ?a "wide ''ab''" "[]"] by (simp add: utf8)
  have b2: "titleBytes sim_platform (wide ''c'') = [0x1B, 0x5D, 0x30, 0x3B, 0x63, 0x07]"
    using change [of sim_platform ?a "wide ''c''" "[]"] by (simp add: utf8)
  have "title (m_console ?a) \<noteq> m_currentTitle ?a"
    unfolding t using ne by simp
  with change [of sim_platform ?a "[]" "[]"]
  have "syncConsoleTitle sim_platform ?a
      = ?a\<lparr>m_conoutPipe := write_pipe (titleBytes sim_platform (title (m_console ?a))) (m_conoutPipe ?a),
            m_currentTitle := title (m_console ?a)\<rparr>"
    by blast
  then have s1: "syncConsoleTitle sim_platform ?a
      = ?a\<lparr>m_conoutPipe := write_pipe (titleBytes sim_platform (wide ''ab'')) (m_conoutPipe ?a),
            m_currentTitle := wide ''ab''\<rparr>"
    unfolding t .
  have dups: "tl (remdups_adj ([] # [wide ''ab'', wide ''ab'', wide ''c''])) = [wide ''ab'', wide ''c'']"
    using ne by simp
  from change [of sim_platform sim_agent "[]" "[wide ''ab'', wide ''ab'', wide ''c'']"]
  have "conout (titlePasses sim_platform [wide ''ab'', wide ''ab'', wide ''c''] sim_agent)
      = conout sim_agent @ concat (map (titleBytes sim_platform)
          (tl (remdups_adj (m_currentTitle sim_agent # [wide ''ab'', wide ''ab'', wide ''c'']))))"
    by blast
  then have s2: "conout (titlePasses sim_platform [wide ''ab'', wide ''ab'', wide ''c''] sim_agent)
      = conout sim_agent @ titleBytes sim_platform (wide ''ab'') @ titleBytes sim_platform (wide ''c'')"
    unfolding t dups by simp
  have q: "conout sim_agent = []"
    by (simp add: conout_def sim_agent_def sim_pipe_def)
  show ?thesis
    unfolding s1 s2 b1 b2 q
    by (simp add: title_def write_pipe_def sim_agent_def sim_pipe_def)
qed

section \<open>Automatic shutdown\<close>

lemma onPollTimeout_split:
  "onPollTimeout env a = autoClosePipesForShutdown (beforeAutoClose env a)"
  by (simp add: onPollTimeout_def beforeAutoClose_def Let_def split: prod.splits)

lemma syncConsoleTitle_fields:
  "m_closingOutputPipes (syncConsoleTitle env a) = m_closingOutputPipes a"
  "m_childProcess (syncConsoleTitle env a) = m_childProcess a"
  "calls (syncConsoleTitle env a) = calls a"
  "m_conerr (syncConsoleTitle env a) = m_conerr a"
  "m_closed (m_conoutPipe (syncConsoleTitle env a)) = m_closed (m_conoutPipe a)"
  "m_primaryScraper (syncConsoleTitle env a) = m_primaryScraper a"
  by (simp_all add: syncConsoleTitle_def Let_def write_cstr_def write_pipe_def)

lemma scrapeBuffers_fields:
  "m_closingOutputPipes (scrapeBuffers env a) = m_closingOutputPipes a"
  "m_childProcess (scrapeBuffers env a) = m_childProcess a"
  "calls (scrapeBuffers env a) = calls a @ scrapeCalls a"
  "m_closed (m_conoutPipe (scrapeBuffers env a)) = m_closed (m_conoutPipe a)"
  "map_option m_closed (conerrPipe (scrapeBuffers env a)) = map_option m_closed (conerrPipe a)"
  by (simp_all add: scrapeBuffers_def Let_def write_pipe_def scrapeCalls_def conerrPipe_def
        split: prod.splits option.splits)

lemma autoClosePipesForShutdown_pipes:
  "m_conoutPipe (autoClosePipesForShutdown a)
     = closeWhenDrained (m_closingOutputPipes a) (m_conoutPipe a)"
  "conerrPipe (autoClosePipesForShutdown a)
     = map_option (closeWhenDrained (m_closingOutputPipes a)) (conerrPipe a)"
  by (simp_all add: autoClosePipesForShutdown_def Let_def closeWhenDrained_def conerrPipe_def
        split: option.splits)

lemma autoClosePipesForShutdown_fields:
  "m_closingOutputPipes (autoClosePipesForShutdown a) = m_closingOutputPipes a"
  "m_childProcess (autoClosePipesForShutdown a) = m_childProcess a"
  "calls (autoClosePipesForShutdown a) = calls a"
  "m_currentTitle (autoClosePipesForShutdown a) = m_currentTitle a"
  by (simp_all add: autoClosePipesForShutdown_def Let_def split: option.splits)

lemma closeWhenDrained_props:
  "isClosed (closeWhenDrained closing p) \<longleftrightarrow> isClosed p \<or> (closing \<and> bytesToSend p = 0)"
  "bytesToSend (closeWhenDrained closing p) = bytesToSend p"
  "m_outQueue (closeWhenDrained closing p) = m_outQueue p"
  by (auto simp: closeWhenDrained_def closePipe_def isClosed_def bytesToSend_def)

lemma scrapeBuffers_conerr_closed:
  "map_option (\<lambda>e. m_closed (m_conerrPipe e)) (m_conerr (scrapeBuffers env a))
     = map_option (\<lambda>e. m_closed (m_conerrPipe e)) (m_conerr a)"
  by (simp add: scrapeBuffers_def Let_def write_pipe_def split: prod.splits option.splits)

lemma beforeAutoClose_fields:
  "m_closingOutputPipes (beforeAutoClose env a) = (m_closingOutputPipes a \<or> exitObserved env a)"
  "m_childProcess (beforeAutoClose env a) = (if exitObserved env a then None else m_childProcess a)"
  "calls (beforeAutoClose env a)
     = calls a
       @ (case m_childProcess a of
            None \<Rightarrow> []
          | Some h \<Rightarrow> if exitObserved env a then [CloseHandle_call h] else [])
       @ (if m_closingOutputPipes a then [] else scrapeCalls a)"
  "isClosed (m_conoutPipe (beforeAutoClose env a)) = isClosed (m_conoutPipe a)"
  "m_closingOutputPipes a \<Longrightarrow> m_currentTitle (beforeAutoClose env a) = m_currentTitle a"
  by (auto simp: beforeAutoClose_def Let_def exitObserved_def syncConsoleTitle_fields
        scrapeBuffers_fields write_pipe_def scrapeCalls_def isClosed_def
        split: prod.splits option.splits)

lemma beforeAutoClose_conerr_closed:
  "map_option isClosed (conerrPipe (beforeAutoClose env a)) = map_option isClosed (conerrPipe a)"
proof -
  have "map_option (\<lambda>e. m_closed (m_conerrPipe e)) (m_conerr (beforeAutoClose env a))
     = map_option (\<lambda>e. m_closed (m_conerrPipe e)) (m_conerr a)"
    by (auto simp: beforeAutoClose_def Let_def scrapeBuffers_conerr_closed syncConsoleTitle_fields
          split: prod.splits option.splits)
  then show ?thesis
    by (simp add: conerrPipe_def option.map_comp comp_def isClosed_def)
qed

text \<open>The pipes and the other fields a tick leaves, in terms of what the collaborators return.\<close>

lemma write_pipe_append: "write_pipe ys (write_pipe xs p) = write_pipe (xs @ ys) p"
  by (simp add: write_pipe_def)

lemma write_pipe_Nil: "write_pipe [] p = p"
  by (simp add: write_pipe_def)

lemma autoClosePipesForShutdown_conerr:
  "m_conerr (autoClosePipesForShutdown a)
     = map_option (\<lambda>e. e\<lparr>m_conerrPipe := closeWhenDrained (m_closingOutputPipes a) (m_conerrPipe e)\<rparr>)
         (m_conerr a)"
  by (simp add: autoClosePipesForShutdown_def Let_def closeWhenDrained_def split: option.splits)

lemma autoClosePipesForShutdown_rest:
  "primaryBuffer (autoClosePipesForShutdown a) = primaryBuffer a"
  "m_primaryScraper (autoClosePipesForShutdown a) = m_primaryScraper a"
  "m_consoleInput (autoClosePipesForShutdown a) = m_consoleInput a"
  by (simp_all add: autoClosePipesForShutdown_def Let_def split: option.splits)

lemma syncConsoleTitle_output:
  "m_conoutPipe (syncConsoleTitle env a) = write_pipe (titleOutput env a) (m_conoutPipe a)"
  "m_currentTitle (syncConsoleTitle env a) = title (m_console a)"
  "primaryBuffer (syncConsoleTitle env a) = primaryBuffer a"
  "m_console (syncConsoleTitle env a) = m_console a"
  "m_consoleInput (syncConsoleTitle env a) = m_consoleInput a"
  by (simp_all add: syncConsoleTitle_def Let_def write_cstr_def titleOutput_def titleBytes_def
        write_pipe_Nil)

lemma scrapeBuffers_effect:
  "scraper_scrapeBuffer env (m_primaryScraper a) (primaryBuffer a) = (scr, buf, out, info) \<Longrightarrow>
     primaryBuffer (scrapeBuffers env a) = buf
   \<and> m_primaryScraper (scrapeBuffers env a) = scr
   \<and> m_conoutPipe (scrapeBuffers env a) = write_pipe out (m_conoutPipe a)
   \<and> m_consoleInput (scrapeBuffers env a) = setMouseWindowRect (windowRect info) (m_consoleInput a)
   \<and> m_currentTitle (scrapeBuffers env a) = m_currentTitle a
   \<and> m_conerr (scrapeBuffers env a) = map_option (scrapedConerr env False) (m_conerr a)"
  by (simp add: scrapeBuffers_def Let_def scrapedConerr_def closeWhenDrained_def
        split: prod.splits option.splits)

lemma closeWhenDrained_False: "closeWhenDrained False p = p"
  by (simp add: closeWhenDrained_def)

lemma beforeAutoClose_unfold:
  "beforeAutoClose env a =
     (let a0 = a\<lparr>m_consoleInput := (m_consoleInput a)
                   \<lparr>ci_state := flushIncompleteEscapeCode env
                       (fst (updateMouseInputFlags env (ci_state (m_consoleInput a))))\<rparr>\<rparr>;
          a2 = (if exitObserved env a
                then a0\<lparr>calls := calls a0 @ [CloseHandle_call (the (m_childProcess a))],
                        m_childProcess := None, m_closingOutputPipes := True\<rparr>
                else a0);
          a3 = (if \<not> m_closingOutputPipes a then scrapeBuffers env (syncConsoleTitle env a2) else a2);
          r = terminal_enableMouseMode env (m_primaryScraper a3)
                (mouseEnabled env a \<and> \<not> m_closingOutputPipes a3)
      in a3\<lparr>m_primaryScraper := fst r, m_conoutPipe := write_pipe (snd r) (m_conoutPipe a3)\<rparr>)"
  by (auto simp: beforeAutoClose_def Let_def exitObserved_def mouseEnabled_def
        split: prod.splits option.splits)

lemma beforeAutoClose_suspended:
  assumes "m_closingOutputPipes a"
    and "terminal_enableMouseMode env (m_primaryScraper a) False = (scr', mout)"
  shows "primaryBuffer (beforeAutoClose env a) = primaryBuffer a"
    and "m_primaryScraper (beforeAutoClose env a) = scr'"
    and "m_mouseWindowRect (m_consoleInput (beforeAutoClose env a))
           = m_mouseWindowRect (m_consoleInput a)"
    and "m_conoutPipe (beforeAutoClose env a) = write_pipe mout (m_conoutPipe a)"
    and "m_currentTitle (beforeAutoClose env a) = m_currentTitle a"
    and "m_conerr (beforeAutoClose env a) = m_conerr a"
  using assms
  by (auto simp: beforeAutoClose_def Let_def split: prod.splits option.splits)

lemma beforeAutoClose_scrapes:
  assumes open_phase: "\<not> m_closingOutputPipes a"
    and scrape: "scraper_scrapeBuffer env (m_primaryScraper a) (primaryBuffer a) = (scr, buf, out, info)"
    and mouse: "terminal_enableMouseMode env scr (mouseEnabled env a \<and> \<not> exitObserved env a)
           = (scr', mout)"
  shows "primaryBuffer (beforeAutoClose env a) = buf
       \<and> m_primaryScraper (beforeAutoClose env a) = scr'
       \<and> m_mouseWindowRect (m_consoleInput (beforeAutoClose env a)) = windowRect info
       \<and> m_conoutPipe (beforeAutoClose env a)
           = write_pipe (titleOutput env a @ out @ mout) (m_conoutPipe a)
       \<and> m_currentTitle (beforeAutoClose env a) = title (m_console a)
       \<and> m_conerr (beforeAutoClose env a) = map_option (scrapedConerr env False) (m_conerr a)"
proof -
  define a0 where "a0 = a\<lparr>m_consoleInput := (m_consoleInput a)
                   \<lparr>ci_state := flushIncompleteEscapeCode env
                       (fst (updateMouseInputFlags env (ci_state (m_consoleInput a))))\<rparr>\<rparr>"
  define a2 where "a2 = (if exitObserved env a
                then a0\<lparr>calls := calls a0 @ [CloseHandle_call (the (m_childProcess a))],
                        m_childProcess := None, m_closingOutputPipes := True\<rparr>
                else a0)"
  define a2t where "a2t = syncConsoleTitle env a2"
  define a3 where "a3 = scrapeBuffers env a2t"
  have a2: "m_primaryScraper a2 = m_primaryScraper a" "primaryBuffer a2 = primaryBuffer a"
      "m_console a2 = m_console a" "m_currentTitle a2 = m_currentTitle a"
      "m_conoutPipe a2 = m_conoutPipe a" "m_conerr a2 = m_conerr a"
      "m_mouseWindowRect (m_consoleInput a2) = m_mouseWindowRect (m_consoleInput a)"
      "m_closingOutputPipes a2 = exitObserved env a"
    using open_phase by (simp_all add: a2_def a0_def)
  have title_out: "titleOutput env a2 = titleOutput env a"
    by (simp add: titleOutput_def a2)
  have a2t: "m_primaryScraper a2t = m_primaryScraper a" "primaryBuffer a2t = primaryBuffer a"
      "m_conoutPipe a2t = write_pipe (titleOutput env a) (m_conoutPipe a)"
      "m_currentTitle a2t = title (m_console a)" "m_conerr a2t = m_conerr a"
      "m_closingOutputPipes a2t = exitObserved env a"
    by (simp_all add: a2t_def syncConsoleTitle_output syncConsoleTitle_fields a2 title_out)
  have "scraper_scrapeBuffer env (m_primaryScraper a2t) (primaryBuffer a2t) = (scr, buf, out, info)"
    using scrape by (simp add: a2t)
  from scrapeBuffers_effect [OF this]
  have a3: "primaryBuffer a3 = buf" "m_primaryScraper a3 = scr"
      "m_conoutPipe a3 = write_pipe (titleOutput env a @ out) (m_conoutPipe a)"
      "m_mouseWindowRect (m_consoleInput a3) = windowRect info"
      "m_currentTitle a3 = title (m_console a)"
      "m_conerr a3 = map_option (scrapedConerr env False) (m_conerr a)"
      "m_closingOutputPipes a3 = exitObserved env a"
    by (simp_all add: a3_def a2t write_pipe_append setMouseWindowRect_def scrapeBuffers_fields)
  have "beforeAutoClose env a =
      a3\<lparr>m_primaryScraper := fst (terminal_enableMouseMode env (m_primaryScraper a3)
                (mouseEnabled env a \<and> \<not> m_closingOutputPipes a3)),
         m_conoutPipe := write_pipe (snd (terminal_enableMouseMode env (m_primaryScraper a3)
                (mouseEnabled env a \<and> \<not> m_closingOutputPipes a3))) (m_conoutPipe a3)\<rparr>"
    using open_phase
    by (simp add: beforeAutoClose_unfold Let_def a3_def a2t_def a2_def a0_def)
  then show ?thesis
    by (simp add: a3 mouse write_pipe_append)
qed

lemma scrapedConerr_closing:
  "map_option (\<lambda>e. e\<lparr>m_conerrPipe := closeWhenDrained closing (m_conerrPipe e)\<rparr>)
     (map_option (scrapedConerr env False) x)
   = map_option (scrapedConerr env closing) x"
  by (cases x) (simp_all add: scrapedConerr_def closeWhenDrained_False split: prod.splits)

lemma onPollTimeout_closing:
  "m_closingOutputPipes (onPollTimeout env a) = (m_closingOutputPipes a \<or> exitObserved env a)"
  by (simp add: onPollTimeout_split autoClosePipesForShutdown_fields beforeAutoClose_fields)

lemma onPollTimeout_scrapes:
  assumes "\<not> m_closingOutputPipes a"
    and "scraper_scrapeBuffer env (m_primaryScraper a) (primaryBuffer a) = (scr, buf, out, info)"
    and "terminal_enableMouseMode env scr (mouseEnabled env a \<and> \<not> exitObserved env a)
           = (scr', mout)"
  shows "primaryBuffer (onPollTimeout env a) = buf
       \<and> m_primaryScraper (onPollTimeout env a) = scr'
       \<and> m_mouseWindowRect (m_consoleInput (onPollTimeout env a)) = windowRect info
       \<and> m_conoutPipe (onPollTimeout env a)
           = closeWhenDrained (exitObserved env a)
               (write_pipe (titleOutput env a @ out @ mout) (m_conoutPipe a))
       \<and> m_currentTitle (onPollTimeout env a) = title (m_console a)
       \<and> m_conerr (onPollTimeout env a)
           = map_option (scrapedConerr env (exitObserved env a)) (m_conerr a)"
  using beforeAutoClose_scrapes [OF assms] assms(1)
  by (simp add: onPollTimeout_split autoClosePipesForShutdown_pipes
        autoClosePipesForShutdown_conerr autoClosePipesForShutdown_rest
        autoClosePipesForShutdown_fields beforeAutoClose_fields scrapedConerr_closing)

lemma onPollTimeout_suspended:
  assumes "m_closingOutputPipes a"
    and "terminal_enableMouseMode env (m_primaryScraper a) False = (scr', mout)"
  shows "primaryBuffer (onPollTimeout env a) = primaryBuffer a
       \<and> m_primaryScraper (onPollTimeout env a) = scr'
       \<and> m_mouseWindowRect (m_consoleInput (onPollTimeout env a))
           = m_mouseWindowRect (m_consoleInput a)
       \<and> m_conoutPipe (onPollTimeout env a) = closeWhenDrained True (write_pipe mout (m_conoutPipe a))
       \<and> m_currentTitle (onPollTimeout env a) = m_currentTitle a
       \<and> m_conerr (onPollTimeout env a)
           = map_option (\<lambda>e. e\<lparr>m_conerrPipe := closeWhenDrained True (m_conerrPipe e)\<rparr>) (m_conerr a)"
  using beforeAutoClose_suspended [OF assms] assms(1)
  by (simp add: onPollTimeout_split autoClosePipesForShutdown_pipes
        autoClosePipesForShutdown_conerr autoClosePipesForShutdown_rest
        autoClosePipesForShutdown_fields beforeAutoClose_fields)

lemma onPollTimeout_conout_closed:
  "isClosed (m_conoutPipe (onPollTimeout env a)) \<longleftrightarrow>
     isClosed (m_conoutPipe a)
     \<or> (m_closingOutputPipes (onPollTimeout env a)
        \<and> bytesToSend (m_conoutPipe (onPollTimeout env a)) = 0)"
  by (simp add: onPollTimeout_split autoClosePipesForShutdown_pipes
        autoClosePipesForShutdown_fields closeWhenDrained_props beforeAutoClose_fields)

lemma onPollTimeout_conerr_closed:
  "(conerrPipe a = None \<longrightarrow> conerrPipe (onPollTimeout env a) = None)
   \<and> (\<forall>q. conerrPipe a = Some q \<longrightarrow>
         (\<exists>q'. conerrPipe (onPollTimeout env a) = Some q'
            \<and> (isClosed q' \<longleftrightarrow>
                 isClosed q \<or> (m_closingOutputPipes (onPollTimeout env a) \<and> bytesToSend q' = 0))))"
proof -
  let ?b = "beforeAutoClose env a"
  have T: "conerrPipe (onPollTimeout env a)
      = map_option (closeWhenDrained (m_closingOutputPipes ?b)) (conerrPipe ?b)"
    "m_closingOutputPipes (onPollTimeout env a) = m_closingOutputPipes ?b"
    by (simp_all add: onPollTimeout_split autoClosePipesForShutdown_pipes
          autoClosePipesForShutdown_fields)
  from beforeAutoClose_conerr_closed [of env a] show ?thesis
    unfolding T by (cases "conerrPipe ?b"; cases "conerrPipe a") (auto simp: closeWhenDrained_props)
qed

text \<open>The flags, the handle and the calls of a tick, and one evaluation on one pipe.\<close>

lemma auto_shutdown_evaluations:
  "(m_autoShutdown a \<and> m_childProcess a = Some h \<and> processSignaled env h
      \<and> \<not> m_closingOutputPipes a \<longrightarrow>
        m_closingOutputPipes (onPollTimeout env a)
      \<and> m_childProcess (onPollTimeout env a) = None
      \<and> calls (onPollTimeout env a) = calls a @ CloseHandle_call h # scrapeCalls a)
   \<and> (m_closingOutputPipes a \<and> m_childProcess a = None \<longrightarrow>
        m_closingOutputPipes (onPollTimeout env a)
      \<and> m_childProcess (onPollTimeout env a) = None
      \<and> calls (onPollTimeout env a) = calls a
      \<and> m_currentTitle (onPollTimeout env a) = m_currentTitle a)
   \<and> m_conoutPipe (autoClosePipesForShutdown a)
       = closeWhenDrained (m_closingOutputPipes a) (m_conoutPipe a)
   \<and> conerrPipe (autoClosePipesForShutdown a)
       = map_option (closeWhenDrained (m_closingOutputPipes a)) (conerrPipe a)
   \<and> (isClosed (closeWhenDrained closing p) \<longleftrightarrow> isClosed p \<or> (closing \<and> bytesToSend p = 0))
   \<and> bytesToSend (closeWhenDrained closing p) = bytesToSend p
   \<and> (\<not> isClosed (m_conoutPipe a) \<and> isClosed (m_conoutPipe (onPollTimeout env a)) \<longrightarrow>
        m_closingOutputPipes (onPollTimeout env a)
      \<and> bytesToSend (m_conoutPipe (onPollTimeout env a)) = 0)
   \<and> (\<forall>q q'. conerrPipe a = Some q \<and> conerrPipe (onPollTimeout env a) = Some q'
          \<and> \<not> isClosed q \<and> isClosed q' \<longrightarrow>
        m_closingOutputPipes (onPollTimeout env a) \<and> bytesToSend q' = 0)"
proof (intro conjI impI allI)
  assume h: "m_autoShutdown a \<and> m_childProcess a = Some h \<and> processSignaled env h
      \<and> \<not> m_closingOutputPipes a"
  then have ex: "exitObserved env a"
    by (simp add: exitObserved_def)
  from h ex show "m_closingOutputPipes (onPollTimeout env a)"
    and "m_childProcess (onPollTimeout env a) = None"
    and "calls (onPollTimeout env a) = calls a @ CloseHandle_call h # scrapeCalls a"
    by (simp_all add: onPollTimeout_split autoClosePipesForShutdown_fields beforeAutoClose_fields)
next
  assume h: "m_closingOutputPipes a \<and> m_childProcess a = None"
  then have ex: "\<not> exitObserved env a"
    by (simp add: exitObserved_def)
  from h ex show "m_closingOutputPipes (onPollTimeout env a)"
    and "m_childProcess (onPollTimeout env a) = None"
    and "calls (onPollTimeout env a) = calls a"
    and "m_currentTitle (onPollTimeout env a) = m_currentTitle a"
    by (simp_all add: onPollTimeout_split autoClosePipesForShutdown_fields beforeAutoClose_fields)
next
  show "m_conoutPipe (autoClosePipesForShutdown a)
       = closeWhenDrained (m_closingOutputPipes a) (m_conoutPipe a)"
    and "conerrPipe (autoClosePipesForShutdown a)
       = map_option (closeWhenDrained (m_closingOutputPipes a)) (conerrPipe a)"
    by (rule autoClosePipesForShutdown_pipes)+
  show "isClosed (closeWhenDrained closing p) \<longleftrightarrow> isClosed p \<or> (closing \<and> bytesToSend p = 0)"
    and "bytesToSend (closeWhenDrained closing p) = bytesToSend p"
    by (rule closeWhenDrained_props)+
next
  let ?b = "beforeAutoClose env a"
  assume "\<not> isClosed (m_conoutPipe a) \<and> isClosed (m_conoutPipe (onPollTimeout env a))"
  then have "\<not> isClosed (m_conoutPipe ?b)"
    and "isClosed (closeWhenDrained (m_closingOutputPipes ?b) (m_conoutPipe ?b))"
    by (simp_all add: onPollTimeout_split autoClosePipesForShutdown_pipes beforeAutoClose_fields)
  then have "m_closingOutputPipes ?b \<and> bytesToSend (m_conoutPipe ?b) = 0"
    by (simp add: closeWhenDrained_props)
  then show "m_closingOutputPipes (onPollTimeout env a)"
    and "bytesToSend (m_conoutPipe (onPollTimeout env a)) = 0"
    by (simp_all add: onPollTimeout_split autoClosePipesForShutdown_pipes
          autoClosePipesForShutdown_fields closeWhenDrained_props)
next
  fix q q'
  let ?b = "beforeAutoClose env a"
  assume h: "conerrPipe a = Some q \<and> conerrPipe (onPollTimeout env a) = Some q'
          \<and> \<not> isClosed q \<and> isClosed q'"
  from h beforeAutoClose_conerr_closed [of env a]
  obtain r where r: "conerrPipe ?b = Some r" "\<not> isClosed r"
    by auto
  with h have q': "q' = closeWhenDrained (m_closingOutputPipes ?b) r"
    by (simp add: onPollTimeout_split autoClosePipesForShutdown_pipes)
  with h r have "m_closingOutputPipes ?b \<and> bytesToSend r = 0"
    by (simp add: closeWhenDrained_props)
  then show "m_closingOutputPipes (onPollTimeout env a)" and "bytesToSend q' = 0"
    by (simp_all add: q' onPollTimeout_split autoClosePipesForShutdown_fields
          closeWhenDrained_props)
qed

lemma onPollTimeout_final_scrape:
  assumes "m_autoShutdown a \<and> m_childProcess a = Some h \<and> processSignaled env h
      \<and> \<not> m_closingOutputPipes a"
  shows "case scraper_scrapeBuffer env (m_primaryScraper a) (primaryBuffer a) of
           (scr, buf, out, info) \<Rightarrow>
             (case terminal_enableMouseMode env scr False of
                (scr', mout) \<Rightarrow>
                    primaryBuffer (onPollTimeout env a) = buf
                  \<and> m_primaryScraper (onPollTimeout env a) = scr'
                  \<and> m_mouseWindowRect (m_consoleInput (onPollTimeout env a)) = windowRect info
                  \<and> m_conoutPipe (onPollTimeout env a)
                      = closeWhenDrained True
                          (write_pipe (titleOutput env a @ out @ mout) (m_conoutPipe a))
                  \<and> m_currentTitle (onPollTimeout env a) = title (m_console a)
                  \<and> m_conerr (onPollTimeout env a)
                      = map_option (scrapedConerr env True) (m_conerr a))"
proof -
  from assms have ex: "exitObserved env a" and open_phase: "\<not> m_closingOutputPipes a"
    by (simp_all add: exitObserved_def)
  obtain scr buf out info where
    s: "scraper_scrapeBuffer env (m_primaryScraper a) (primaryBuffer a) = (scr, buf, out, info)"
    by (cases "scraper_scrapeBuffer env (m_primaryScraper a) (primaryBuffer a)") auto
  obtain scr' mout where m: "terminal_enableMouseMode env scr False = (scr', mout)"
    by (cases "terminal_enableMouseMode env scr False") auto
  then have "terminal_enableMouseMode env scr (mouseEnabled env a \<and> \<not> exitObserved env a)
      = (scr', mout)"
    using ex by simp
  from onPollTimeout_scrapes [OF open_phase s this] show ?thesis
    by (simp add: s m ex)
qed

lemma onPollTimeout_scrape_pass:
  assumes "\<not> m_closingOutputPipes a"
  shows "case scraper_scrapeBuffer env (m_primaryScraper a) (primaryBuffer a) of
           (scr, buf, out, info) \<Rightarrow>
             (case terminal_enableMouseMode env scr (mouseEnabled env a \<and> \<not> exitObserved env a) of
                (scr', mout) \<Rightarrow>
                    primaryBuffer (onPollTimeout env a) = buf
                  \<and> m_primaryScraper (onPollTimeout env a) = scr'
                  \<and> m_mouseWindowRect (m_consoleInput (onPollTimeout env a)) = windowRect info
                  \<and> m_conoutPipe (onPollTimeout env a)
                      = closeWhenDrained (exitObserved env a)
                          (write_pipe (titleOutput env a @ out @ mout) (m_conoutPipe a))
                  \<and> m_currentTitle (onPollTimeout env a) = title (m_console a)
                  \<and> m_conerr (onPollTimeout env a)
                      = map_option (scrapedConerr env (exitObserved env a)) (m_conerr a))"
proof -
  obtain scr buf out info where
    s: "scraper_scrapeBuffer env (m_primaryScraper a) (primaryBuffer a) = (scr, buf, out, info)"
    by (cases "scraper_scrapeBuffer env (m_primaryScraper a) (primaryBuffer a)") auto
  obtain scr' mout where
    m: "terminal_enableMouseMode env scr (mouseEnabled env a \<and> \<not> exitObserved env a) = (scr', mout)"
    by (cases "terminal_enableMouseMode env scr (mouseEnabled env a \<and> \<not> exitObserved env a)") auto
  from onPollTimeout_scrapes [OF assms s m] show ?thesis
    by (simp add: s m)
qed

lemma onPollTimeout_no_scrape:
  assumes "m_closingOutputPipes a"
  shows "case terminal_enableMouseMode env (m_primaryScraper a) False of
           (scr', mout) \<Rightarrow>
               primaryBuffer (onPollTimeout env a) = primaryBuffer a
             \<and> m_primaryScraper (onPollTimeout env a) = scr'
             \<and> m_mouseWindowRect (m_consoleInput (onPollTimeout env a))
                 = m_mouseWindowRect (m_consoleInput a)
             \<and> m_conoutPipe (onPollTimeout env a)
                 = closeWhenDrained True (write_pipe mout (m_conoutPipe a))
             \<and> m_currentTitle (onPollTimeout env a) = m_currentTitle a
             \<and> m_conerr (onPollTimeout env a)
                 = map_option (\<lambda>e. e\<lparr>m_conerrPipe := closeWhenDrained True (m_conerrPipe e)\<rparr>)
                     (m_conerr a)"
proof -
  obtain scr' mout where
    m: "terminal_enableMouseMode env (m_primaryScraper a) False = (scr', mout)"
    by (cases "terminal_enableMouseMode env (m_primaryScraper a) False") auto
  from onPollTimeout_suspended [OF assms m] show ?thesis
    by (simp add: m)
qed

text \<open>
  C2. The tick that finds the child exited, with automatic shutdown armed, closes the
  handle, enters the closing phase and still runs one scrape pass, after the exit check:
  the primary buffer and the scraper state are the ones \<^verbatim>\<open>scraper_scrapeBuffer\<close> returns,
  the mouse window is the window it reports, the primary pipe has received the title
  command if the title changed, then the scraper's output, and the error stream has been
  scraped in the same way into its own pipe; mouse mode is switched off. Every tick that
  starts outside the closing phase scrapes like this. A tick that starts in the closing
  phase leaves the buffers, the title and the mouse window as they are and writes nothing
  but what switching mouse mode off writes. The agent is closing after a tick exactly when
  it was closing before or the tick found the child exited. After a tick each output pipe,
  primary or secondary, is closed exactly when it was closed before or the agent is closing
  and the pipe has nothing left to send, the writes of the tick included; closing leaves
  what a pipe has to send as it is, and each pipe is treated on its own.
\<close>

theorem auto_shutdown_closes_drained_pipes:
  "(m_autoShutdown a \<and> m_childProcess a = Some h \<and> processSignaled env h
      \<and> \<not> m_closingOutputPipes a \<longrightarrow>
        m_closingOutputPipes (onPollTimeout env a)
      \<and> m_childProcess (onPollTimeout env a) = None
      \<and> calls (onPollTimeout env a) = calls a @ CloseHandle_call h # scrapeCalls a)
   \<and> (m_autoShutdown a \<and> m_childProcess a = Some h \<and> processSignaled env h
      \<and> \<not> m_closingOutputPipes a \<longrightarrow>
        (case scraper_scrapeBuffer env (m_primaryScraper a) (primaryBuffer a) of
           (scr, buf, out, info) \<Rightarrow>
             (case terminal_enableMouseMode env scr False of
                (scr', mout) \<Rightarrow>
                    primaryBuffer (onPollTimeout env a) = buf
                  \<and> m_primaryScraper (onPollTimeout env a) = scr'
                  \<and> m_mouseWindowRect (m_consoleInput (onPollTimeout env a)) = windowRect info
                  \<and> m_conoutPipe (onPollTimeout env a)
                      = closeWhenDrained True
                          (write_pipe (titleOutput env a @ out @ mout) (m_conoutPipe a))
                  \<and> m_currentTitle (onPollTimeout env a) = title (m_console a)
                  \<and> m_conerr (onPollTimeout env a)
                      = map_option (scrapedConerr env True) (m_conerr a))))
   \<and> (\<not> m_closingOutputPipes a \<longrightarrow>
        (case scraper_scrapeBuffer env (m_primaryScraper a) (primaryBuffer a) of
           (scr, buf, out, info) \<Rightarrow>
             (case terminal_enableMouseMode env scr (mouseEnabled env a \<and> \<not> exitObserved env a) of
                (scr', mout) \<Rightarrow>
                    primaryBuffer (onPollTimeout env a) = buf
                  \<and> m_primaryScraper (onPollTimeout env a) = scr'
                  \<and> m_mouseWindowRect (m_consoleInput (onPollTimeout env a)) = windowRect info
                  \<and> m_conoutPipe (onPollTimeout env a)
                      = closeWhenDrained (exitObserved env a)
                          (write_pipe (titleOutput env a @ out @ mout) (m_conoutPipe a))
                  \<and> m_currentTitle (onPollTimeout env a) = title (m_console a)
                  \<and> m_conerr (onPollTimeout env a)
                      = map_option (scrapedConerr env (exitObserved env a)) (m_conerr a))))
   \<and> (m_closingOutputPipes a \<longrightarrow>
        (case terminal_enableMouseMode env (m_primaryScraper a) False of
           (scr', mout) \<Rightarrow>
               primaryBuffer (onPollTimeout env a) = primaryBuffer a
             \<and> m_primaryScraper (onPollTimeout env a) = scr'
             \<and> m_mouseWindowRect (m_consoleInput (onPollTimeout env a))
                 = m_mouseWindowRect (m_consoleInput a)
             \<and> m_conoutPipe (onPollTimeout env a)
                 = closeWhenDrained True (write_pipe mout (m_conoutPipe a))
             \<and> m_currentTitle (onPollTimeout env a) = m_currentTitle a
             \<and> m_conerr (onPollTimeout env a)
                 = map_option (\<lambda>e. e\<lparr>m_conerrPipe := closeWhenDrained True (m_conerrPipe e)\<rparr>)
                     (m_conerr a)))
   \<and> (m_closingOutputPipes a \<and> m_childProcess a = None \<longrightarrow>
        m_closingOutputPipes (onPollTimeout env a)
      \<and> m_childProcess (onPollTimeout env a) = None
      \<and> calls (onPollTimeout env a) = calls a
      \<and> m_currentTitle (onPollTimeout env a) = m_currentTitle a)
   \<and> m_closingOutputPipes (onPollTimeout env a) = (m_closingOutputPipes a \<or> exitObserved env a)
   \<and> (isClosed (m_conoutPipe (onPollTimeout env a)) \<longleftrightarrow>
          isClosed (m_conoutPipe a)
          \<or> (m_closingOutputPipes (onPollTimeout env a)
             \<and> bytesToSend (m_conoutPipe (onPollTimeout env a)) = 0))
   \<and> (conerrPipe a = None \<longrightarrow> conerrPipe (onPollTimeout env a) = None)
   \<and> (\<forall>q. conerrPipe a = Some q \<longrightarrow>
         (\<exists>q'. conerrPipe (onPollTimeout env a) = Some q'
            \<and> (isClosed q' \<longleftrightarrow>
                 isClosed q \<or> (m_closingOutputPipes (onPollTimeout env a) \<and> bytesToSend q' = 0))))
   \<and> m_conoutPipe (autoClosePipesForShutdown a)
       = closeWhenDrained (m_closingOutputPipes a) (m_conoutPipe a)
   \<and> conerrPipe (autoClosePipesForShutdown a)
       = map_option (closeWhenDrained (m_closingOutputPipes a)) (conerrPipe a)
   \<and> (isClosed (closeWhenDrained closing p) \<longleftrightarrow> isClosed p \<or> (closing \<and> bytesToSend p = 0))
   \<and> bytesToSend (closeWhenDrained closing p) = bytesToSend p
   \<and> (\<not> isClosed (m_conoutPipe a) \<and> isClosed (m_conoutPipe (onPollTimeout env a)) \<longrightarrow>
        m_closingOutputPipes (onPollTimeout env a)
      \<and> bytesToSend (m_conoutPipe (onPollTimeout env a)) = 0)
   \<and> (\<forall>q q'. conerrPipe a = Some q \<and> conerrPipe (onPollTimeout env a) = Some q'
          \<and> \<not> isClosed q \<and> isClosed q' \<longrightarrow>
        m_closingOutputPipes (onPollTimeout env a) \<and> bytesToSend q' = 0)"
proof -
  note old = auto_shutdown_evaluations [of a h env closing p]
  have detect: "m_autoShutdown a \<and> m_childProcess a = Some h \<and> processSignaled env h
      \<and> \<not> m_closingOutputPipes a \<longrightarrow>
        (case scraper_scrapeBuffer env (m_primaryScraper a) (primaryBuffer a) of
           (scr, buf, out, info) \<Rightarrow>
             (case terminal_enableMouseMode env scr False of
                (scr', mout) \<Rightarrow>
                    primaryBuffer (onPollTimeout env a) = buf
                  \<and> m_primaryScraper (onPollTimeout env a) = scr'
                  \<and> m_mouseWindowRect (m_consoleInput (onPollTimeout env a)) = windowRect info
                  \<and> m_conoutPipe (onPollTimeout env a)
                      = closeWhenDrained True
                          (write_pipe (titleOutput env a @ out @ mout) (m_conoutPipe a))
                  \<and> m_currentTitle (onPollTimeout env a) = title (m_console a)
                  \<and> m_conerr (onPollTimeout env a)
                      = map_option (scrapedConerr env True) (m_conerr a)))"
    using onPollTimeout_final_scrape [of a h env] by blast
  have pass: "\<not> m_closingOutputPipes a \<longrightarrow>
        (case scraper_scrapeBuffer env (m_primaryScraper a) (primaryBuffer a) of
           (scr, buf, out, info) \<Rightarrow>
             (case terminal_enableMouseMode env scr (mouseEnabled env a \<and> \<not> exitObserved env a) of
                (scr', mout) \<Rightarrow>
                    primaryBuffer (onPollTimeout env a) = buf
                  \<and> m_primaryScraper (onPollTimeout env a) = scr'
                  \<and> m_mouseWindowRect (m_consoleInput (onPollTimeout env a)) = windowRect info
                  \<and> m_conoutPipe (onPollTimeout env a)
                      = closeWhenDrained (exitObserved env a)
                          (write_pipe (titleOutput env a @ out @ mout) (m_conoutPipe a))
                  \<and> m_currentTitle (onPollTimeout env a) = title (m_console a)
                  \<and> m_conerr (onPollTimeout env a)
                      = map_option (scrapedConerr env (exitObserved env a)) (m_conerr a)))"
    using onPollTimeout_scrape_pass [of a env] by blast
  have none: "m_closingOutputPipes a \<longrightarrow>
        (case terminal_enableMouseMode env (m_primaryScraper a) False of
           (scr', mout) \<Rightarrow>
               primaryBuffer (onPollTimeout env a) = primaryBuffer a
             \<and> m_primaryScraper (onPollTimeout env a) = scr'
             \<and> m_mouseWindowRect (m_consoleInput (onPollTimeout env a))
                 = m_mouseWindowRect (m_consoleInput a)
             \<and> m_conoutPipe (onPollTimeout env a)
                 = closeWhenDrained True (write_pipe mout (m_conoutPipe a))
             \<and> m_currentTitle (onPollTimeout env a) = m_currentTitle a
             \<and> m_conerr (onPollTimeout env a)
                 = map_option (\<lambda>e. e\<lparr>m_conerrPipe := closeWhenDrained True (m_conerrPipe e)\<rparr>)
                     (m_conerr a))"
    using onPollTimeout_no_scrape [of a env] by blast
  note flag = onPollTimeout_closing [of env a]
  note out = onPollTimeout_conout_closed [of env a]
  note err = onPollTimeout_conerr_closed [of a env]
  note c = conjunct1 and d = conjunct2
  show ?thesis
    by (intro conjI old [THEN c] detect pass none old [THEN d, THEN c] flag out
          err [THEN c] err [THEN d]
          old [THEN d, THEN d, THEN c] old [THEN d, THEN d, THEN d, THEN c]
          old [THEN d, THEN d, THEN d, THEN d, THEN c]
          old [THEN d, THEN d, THEN d, THEN d, THEN d, THEN c]
          old [THEN d, THEN d, THEN d, THEN d, THEN d, THEN d, THEN c]
          old [THEN d, THEN d, THEN d, THEN d, THEN d, THEN d, THEN d])
qed

text \<open>
  The child has exited. The first tick closes the handle and scrapes both buffers: the
  primary pipe holds the two bytes of the primary scraper, the secondary pipe those of the
  error scraper, and both stay open. Once the primary pipe has been drained the next tick
  closes it, scrapes nothing, and leaves the secondary pipe open with its two bytes.
\<close>

theorem auto_shutdown_closes_drained_pipes_witness:
  "m_autoShutdown sim_scraped \<and> m_childProcess sim_scraped = Some 100
   \<and> processSignaled sim_scraping 100 \<and> \<not> m_closingOutputPipes sim_scraped
   \<and> m_closingOutputPipes (onPollTimeout sim_scraping sim_scraped)
   \<and> m_childProcess (onPollTimeout sim_scraping sim_scraped) = None
   \<and> calls (onPollTimeout sim_scraping sim_scraped)
       = [CloseHandle_call 100, scrapeBuffer_call False, scrapeBuffer_call True]
   \<and> primaryBuffer (onPollTimeout sim_scraping sim_scraped)
       = sim_buffer\<lparr>cb_cursor := \<lparr>X = 3, Y = 7\<rparr>\<rparr>
   \<and> m_primaryScraper (onPollTimeout sim_scraping sim_scraped) = 4
   \<and> m_mouseWindowRect (m_consoleInput (onPollTimeout sim_scraping sim_scraped))
       = \<lparr>rect_x = 0, rect_y = 0, rect_width = 80, rect_height = 25\<rparr>
   \<and> m_conoutPipe (onPollTimeout sim_scraping sim_scraped)
       = (sim_pipe ''conout'')\<lparr>m_outQueue := [0x41, 3]\<rparr>
   \<and> conerrPipe (onPollTimeout sim_scraping sim_scraped)
       = Some ((sim_pipe ''conerr'')\<lparr>m_outQueue := [0x41, 5]\<rparr>)
   \<and> m_conoutPipe
        (onPollTimeout sim_scraping
          ((onPollTimeout sim_scraping sim_scraped)\<lparr>m_conoutPipe := sim_pipe ''conout''\<rparr>))
       = (sim_pipe ''conout'')\<lparr>m_closed := True\<rparr>
   \<and> conerrPipe
        (onPollTimeout sim_scraping
          ((onPollTimeout sim_scraping sim_scraped)\<lparr>m_conoutPipe := sim_pipe ''conout''\<rparr>))
       = Some ((sim_pipe ''conerr'')\<lparr>m_outQueue := [0x41, 5]\<rparr>)
   \<and> primaryBuffer
        (onPollTimeout sim_scraping
          ((onPollTimeout sim_scraping sim_scraped)\<lparr>m_conoutPipe := sim_pipe ''conout''\<rparr>))
       = sim_buffer\<lparr>cb_cursor := \<lparr>X = 3, Y = 7\<rparr>\<rparr>
   \<and> m_primaryScraper
        (onPollTimeout sim_scraping
          ((onPollTimeout sim_scraping sim_scraped)\<lparr>m_conoutPipe := sim_pipe ''conout''\<rparr>))
       = 4"
proof -
  define T1 where "T1 = onPollTimeout sim_scraping sim_scraped"
  define A2 where "A2 = T1\<lparr>m_conoutPipe := sim_pipe ''conout''\<rparr>"
  define T2 where "T2 = onPollTimeout sim_scraping A2"
  note c = conjunct1 and d = conjunct2
  note first = auto_shutdown_closes_drained_pipes
    [of sim_scraped 100 sim_scraping True "sim_pipe ''conout''", folded T1_def]
  note second = auto_shutdown_closes_drained_pipes
    [of A2 100 sim_scraping True "sim_pipe ''conout''", folded T2_def]
  have pre: "m_autoShutdown sim_scraped \<and> m_childProcess sim_scraped = Some 100
      \<and> processSignaled sim_scraping 100 \<and> \<not> m_closingOutputPipes sim_scraped"
    by (simp add: sim_scraped_def sim_scraping_def)
  have flags: "m_closingOutputPipes T1 \<and> m_childProcess T1 = None
      \<and> calls T1 = calls sim_scraped @ CloseHandle_call 100 # scrapeCalls sim_scraped"
    using first [THEN c] pre by (rule mp)
  have log: "calls sim_scraped @ CloseHandle_call 100 # scrapeCalls sim_scraped
      = [CloseHandle_call 100, scrapeBuffer_call False, scrapeBuffer_call True]"
    by (simp add: sim_scraped_def scrapeCalls_def)
  have scrape: "scraper_scrapeBuffer sim_scraping (m_primaryScraper sim_scraped)
        (primaryBuffer sim_scraped)
      = (4, sim_buffer\<lparr>cb_cursor := \<lparr>X = 3, Y = 7\<rparr>\<rparr>, [0x41, 3], bufferInfo sim_buffer)"
    by (simp add: sim_scraped_def sim_scraping_def setCursorPosition_def)
  have mouse: "terminal_enableMouseMode sim_scraping s False = (s, [])" for s
    by (simp add: sim_scraping_def)
  have notitle: "titleOutput sim_scraping sim_scraped = []"
    by (simp add: titleOutput_def sim_scraped_def sim_console_def title_def)
  have pipe1: "closeWhenDrained True (write_pipe ([] @ [0x41, 3] @ []) (m_conoutPipe sim_scraped))
      = (sim_pipe ''conout'')\<lparr>m_outQueue := [0x41, 3]\<rparr>"
    by (simp add: closeWhenDrained_def write_pipe_def sim_scraped_def sim_pipe_def
        isClosed_def bytesToSend_def)
  have err1: "map_option (scrapedConerr sim_scraping True) (m_conerr sim_scraped)
      = Some \<lparr>m_errorBuffer = sim_buffer\<lparr>cb_cursor := \<lparr>X = 5, Y = 7\<rparr>\<rparr>,
              m_conerrPipe = (sim_pipe ''conerr'')\<lparr>m_outQueue := [0x41, 5]\<rparr>,
              m_errorScraper = 6\<rparr>"
    by (simp add: scrapedConerr_def sim_scraped_def sim_scraping_def setCursorPosition_def
        closeWhenDrained_def write_pipe_def sim_pipe_def isClosed_def bytesToSend_def)
  have "case scraper_scrapeBuffer sim_scraping (m_primaryScraper sim_scraped)
          (primaryBuffer sim_scraped) of
        (scr, buf, out, info) \<Rightarrow>
          (case terminal_enableMouseMode sim_scraping scr False of
             (scr', mout) \<Rightarrow>
                 primaryBuffer T1 = buf
               \<and> m_primaryScraper T1 = scr'
               \<and> m_mouseWindowRect (m_consoleInput T1) = windowRect info
               \<and> m_conoutPipe T1
                   = closeWhenDrained True
                       (write_pipe (titleOutput sim_scraping sim_scraped @ out @ mout)
                         (m_conoutPipe sim_scraped))
               \<and> m_currentTitle T1 = title (m_console sim_scraped)
               \<and> m_conerr T1 = map_option (scrapedConerr sim_scraping True) (m_conerr sim_scraped))"
    using first [THEN d, THEN c] pre by (rule mp)
  then have tick1: "primaryBuffer T1 = sim_buffer\<lparr>cb_cursor := \<lparr>X = 3, Y = 7\<rparr>\<rparr>
      \<and> m_primaryScraper T1 = 4
      \<and> m_mouseWindowRect (m_consoleInput T1) = windowRect (bufferInfo sim_buffer)
      \<and> m_conoutPipe T1 = (sim_pipe ''conout'')\<lparr>m_outQueue := [0x41, 3]\<rparr>
      \<and> m_currentTitle T1 = title (m_console sim_scraped)
      \<and> m_conerr T1
          = Some \<lparr>m_errorBuffer = sim_buffer\<lparr>cb_cursor := \<lparr>X = 5, Y = 7\<rparr>\<rparr>,
              m_conerrPipe = (sim_pipe ''conerr'')\<lparr>m_outQueue := [0x41, 5]\<rparr>,
              m_errorScraper = 6\<rparr>"
    unfolding scrape mouse notitle pipe1 err1 prod.case .
  have rect: "windowRect (bufferInfo sim_buffer)
      = \<lparr>rect_x = 0, rect_y = 0, rect_width = 80, rect_height = 25\<rparr>"
    by (simp add: windowRect_def bufferInfo_def sim_buffer_def)
  have closing2: "m_closingOutputPipes A2"
    using flags by (simp add: A2_def)
  have fields2: "m_primaryScraper A2 = 4
      \<and> primaryBuffer A2 = sim_buffer\<lparr>cb_cursor := \<lparr>X = 3, Y = 7\<rparr>\<rparr>
      \<and> m_conoutPipe A2 = sim_pipe ''conout''
      \<and> m_conerr A2
          = Some \<lparr>m_errorBuffer = sim_buffer\<lparr>cb_cursor := \<lparr>X = 5, Y = 7\<rparr>\<rparr>,
              m_conerrPipe = (sim_pipe ''conerr'')\<lparr>m_outQueue := [0x41, 5]\<rparr>,
              m_errorScraper = 6\<rparr>"
    using tick1 by (simp add: A2_def)
  have "case terminal_enableMouseMode sim_scraping (m_primaryScraper A2) False of
        (scr', mout) \<Rightarrow>
            primaryBuffer T2 = primaryBuffer A2
          \<and> m_primaryScraper T2 = scr'
          \<and> m_mouseWindowRect (m_consoleInput T2) = m_mouseWindowRect (m_consoleInput A2)
          \<and> m_conoutPipe T2 = closeWhenDrained True (write_pipe mout (m_conoutPipe A2))
          \<and> m_currentTitle T2 = m_currentTitle A2
          \<and> m_conerr T2
              = map_option (\<lambda>e. e\<lparr>m_conerrPipe := closeWhenDrained True (m_conerrPipe e)\<rparr>)
                  (m_conerr A2)"
    using second [THEN d, THEN d, THEN d, THEN c] closing2 by (rule mp)
  then have tick2: "primaryBuffer T2 = primaryBuffer A2
      \<and> m_primaryScraper T2 = m_primaryScraper A2
      \<and> m_mouseWindowRect (m_consoleInput T2) = m_mouseWindowRect (m_consoleInput A2)
      \<and> m_conoutPipe T2 = closeWhenDrained True (write_pipe [] (m_conoutPipe A2))
      \<and> m_currentTitle T2 = m_currentTitle A2
      \<and> m_conerr T2
          = map_option (\<lambda>e. e\<lparr>m_conerrPipe := closeWhenDrained True (m_conerrPipe e)\<rparr>)
              (m_conerr A2)"
    unfolding mouse prod.case .
  have out2: "m_conoutPipe T2 = (sim_pipe ''conout'')\<lparr>m_closed := True\<rparr>"
    using tick2 fields2
    by (simp add: closeWhenDrained_def write_pipe_def sim_pipe_def isClosed_def bytesToSend_def
        closePipe_def)
  have err2: "conerrPipe T2 = Some ((sim_pipe ''conerr'')\<lparr>m_outQueue := [0x41, 5]\<rparr>)"
    using tick2 fields2
    by (simp add: conerrPipe_def closeWhenDrained_def sim_pipe_def isClosed_def bytesToSend_def)
  have err1': "conerrPipe T1 = Some ((sim_pipe ''conerr'')\<lparr>m_outQueue := [0x41, 5]\<rparr>)"
    using tick1 by (simp add: conerrPipe_def)
  show ?thesis
    unfolding T1_def [symmetric] A2_def [symmetric] T2_def [symmetric]
    using pre flags log tick1 rect out2 err2 err1' tick2 fields2 by simp
qed

section \<open>No child in the closing phase\<close>

text \<open>
  The ticks and the handlers keep the closing phase free of a tracked child, whether they
  return or abort: a tick forgets the child when it enters the phase, and a spawn in the
  phase fails its assertion.
\<close>

lemma onPollTimeout_closingInvariant:
  "closingInvariant a \<Longrightarrow> closingInvariant (onPollTimeout env a)"
  by (simp add: closingInvariant_def onPollTimeout_split autoClosePipesForShutdown_fields
        beforeAutoClose_fields)

lemma resizeWindow_closing_fields:
  "m_closingOutputPipes (resizeWindow env cols rows a) = m_closingOutputPipes a"
  "m_childProcess (resizeWindow env cols rows a) = m_childProcess a"
  by (simp_all add: resizeWindow_def Let_def split: prod.splits option.splits)

lemma writePacket_closing_fields:
  "m_closingOutputPipes (writePacket p a) = m_closingOutputPipes a"
  "m_childProcess (writePacket p a) = m_childProcess a"
  by (simp_all add: writePacket_def Let_def)

lemma handlePacket_closingInvariant:
  "closingInvariant a \<Longrightarrow> closingInvariant (final_state (handlePacket env p a))"
  by (auto simp: closingInvariant_def handlePacket_def handleStartProcessPacket_def
        handleSetSizePacket_def final_state_def stop_state_def Let_def duplicateHandle_def
        resizeWindow_closing_fields writePacket_closing_fields
        split: option.splits if_splits sum.splits prod.splits)

lemma handlePacket_closingInvariant_cases:
  "handlePacket env p a = Inr a' \<Longrightarrow> closingInvariant a \<Longrightarrow> closingInvariant a'"
  "handlePacket env p a = Inl (Fatal msg s) \<Longrightarrow> closingInvariant a \<Longrightarrow> closingInvariant s"
  "handlePacket env p a = Inl (DecodeError s) \<Longrightarrow> closingInvariant a \<Longrightarrow> closingInvariant s"
  using handlePacket_closingInvariant [of a env p]
  by (simp_all add: final_state_def stop_state_def)

lemma closingInvariant_controlPipe:
  "closingInvariant (a\<lparr>m_controlPipe := p\<rparr>) = closingInvariant a"
  by (simp add: closingInvariant_def)

lemma pollControlPipe_body_closingInvariant:
  "closingInvariant a \<Longrightarrow> closingInvariant (iteration_state (pollControlPipe_body env a))"
  by (auto simp: pollControlPipe_body_def Let_def iteration_state_def read_def
        closingInvariant_controlPipe
        dest: handlePacket_closingInvariant_cases
        split: if_splits prod.splits option.splits sum.splits stop.splits)

lemma pollControlPipe_loop_closingInvariant:
  "closingInvariant a \<Longrightarrow> closingInvariant (final_state (pollControlPipe_loop env a))"
proof (induction env a rule: pollControlPipe_loop.induct)
  case (1 env a)
  from pollControlPipe_body_closingInvariant [OF "1.prems", of env]
  show ?case
    using "1.IH"
    by (cases "pollControlPipe_body env a")
       (simp_all add: pollControlPipe_loop.simps [of env a] iteration_state_def final_state_def
          stop_state_def)
qed

lemma pollControlPipe_closingInvariant:
  "closingInvariant a \<Longrightarrow> closingInvariant (final_state (pollControlPipe env a))"
  using pollControlPipe_loop_closingInvariant [of a env]
  by (simp add: pollControlPipe_def shutdown_def final_state_def closingInvariant_def)

section \<open>Runs on the simulated platform\<close>

text \<open>A spawn that succeeds, and the tick that finds the child exited, computed in full.\<close>

lemma sim_spawn:
  "handleStartProcessPacket sim_platform \<lparr>rb_buf = sim_StartProcess_body, rb_off = 0\<rparr> sim_agent
     = Inr (sim_agent
         \<lparr>m_controlPipe := (sim_pipe ''control'')
            \<lparr>m_outQueue := [28, 0, 0, 0, 0, 0, 0, 0,  0, 0, 0, 0,
                            0, 0, 0, 0, 0, 0, 0, 0,  0, 0, 0, 0, 0, 0, 0, 0]\<rparr>,
          m_childProcess := Some 100,
          m_autoShutdown := True,
          calls := [CreateProcessW_call
                      \<lparr>lpApplicationName = None, lpCommandLine = Some [0x63, 0x6D, 0x64, 0],
                       bInheritHandles = False, lpEnvironment = None,
                       lpCurrentDirectory = None, lpDesktop = None, useStdHandles = False\<rparr>,
                    CloseHandle_call 104]\<rparr>)"
  by (simp add: handleStartProcessPacket_def readStartProcessFields_sim connectingPipeList_def
        appendPipeName_def isConnecting_def createProcessArgs_def m_useConerr_def
        vectorWithNulFromString_def vectorFromString_def Let_def writePacket_def
        replaceRawValue_uint64_def putInt64_def putInt32_def newPacket_bytes le_bytes_numeral
        write_pipe_def sim_agent_def sim_pipe_def sim_platform_def)

lemma sim_tick:
  "onPollTimeout sim_platform sim_exiting =
     sim_exiting
       \<lparr>m_conerr := Some \<lparr>m_errorBuffer = sim_buffer,
                          m_conerrPipe = (sim_pipe ''conerr'')\<lparr>m_closed := True\<rparr>,
                          m_errorScraper = ()\<rparr>,
        m_childProcess := None,
        m_closingOutputPipes := True,
        calls := [CloseHandle_call 100, scrapeBuffer_call False, scrapeBuffer_call True]\<rparr>"
  by (simp add: onPollTimeout_def sim_exiting_def sim_agent_def sim_platform_def sim_pipe_def
        sim_console_def sim_buffer_def Let_def scrapeBuffers_def syncConsoleTitle_def
        autoClosePipesForShutdown_def setFrozen_def frozen_def title_def write_pipe_def
        setMouseWindowRect_def windowRect_def bufferInfo_def isClosed_def bytesToSend_def
        closePipe_def)

end
